theory Spec2Isabelle
  imports Main "HOL-Library.Sublist" "HOL-Library.AList" "HOL-Library.Multiset"
begin

section \<open>Data model\<close>

text \<open>
  The metadata table is a pandas DataFrame whose cells are strings or the missing value
  (NaN). A cell is a \<open>string option\<close>, \<open>None\<close> being the missing value, which
  \<open>pd.notna\<close> rejects. A row, as \<open>iterrows\<close> yields it, is a Series: the column
  labels paired with the row's values, in column order. The table keeps its column labels
  next to the rows (each with its index label), since a table without rows still has
  columns.
\<close>

type_synonym cell = "string option"

type_synonym row = "(string \<times> cell) list"

record dataframe =
  columns :: "string list"
  rows :: "(string \<times> row) list"

text \<open>
  The column labels of a well-formed table are distinct, and every row carries exactly
  these labels. The operations below are modelled for such tables and their rows: under
  a repeated label pandas hands out a Series or a DataFrame instead of a value, which is
  not modelled; the theorems about the value under a label are stated for distinct
  labels, and the concrete rows and tables below have distinct labels.
\<close>

definition wf_dataframe :: "dataframe \<Rightarrow> bool" where
  "wf_dataframe df =
     (distinct (columns df) \<and> list_all (\<lambda>ir. map fst (snd ir) = columns df) (rows df))"

text \<open>
  A path is built as the code builds it: \<open>Path(s)\<close> from a string, and \<open>p / name\<close>.
  Joining and normalising is left to the collaborators that receive the path.
\<close>

datatype path = Path string | Join path string

text \<open>
  Log records keep the level and the pieces of the formatted message: literal text, a
  formatted number, a formatted list of strings and a formatted path.
\<close>

datatype level = INFO | WARNING | ERROR

datatype fpart = Txt string | Num nat | StrList "string list" | Pth path

type_synonym log_record = "level \<times> fpart list"

text \<open>
  Exceptions: a \<open>KeyError\<close> for a missing label, an \<open>IndexError\<close> for the first
  element of an empty list, the \<open>ValueError\<close> the processor raises itself (with its
  message), and \<open>Raised\<close> for whatever a collaborator (storage, network,
  regular-expression engine) raises, with the text \<open>str(e)\<close> gives.
\<close>

datatype exn = KeyError string | IndexError | ValueError "fpart list" | Raised string

text \<open>A string between single quotes, as in \<open>f"'{s}'"\<close>.\<close>

definition quoted :: "string \<Rightarrow> string" where
  "quoted s = CHR 0x27 # s @ [CHR 0x27]"

text \<open>\<open>str(e)\<close>; for a \<open>KeyError\<close> it is the key between single quotes.\<close>

fun exn_str :: "exn \<Rightarrow> fpart list" where
  "exn_str (KeyError k) = [Txt (quoted k)]"
| "exn_str IndexError = [Txt ''list index out of range'']"
| "exn_str (ValueError m) = m"
| "exn_str (Raised s) = [Txt s]"

subsection \<open>Python and pandas primitives\<close>

definition notna :: "cell \<Rightarrow> bool" where
  "notna v = (v \<noteq> None)"

text \<open>\<open>str(v)\<close> of a cell: the string itself, and \<open>nan\<close> for the missing value.\<close>

fun py_str :: "cell \<Rightarrow> string" where
  "py_str None = ''nan''"
| "py_str (Some s) = s"

text \<open>
  \<open>row[label]\<close> on a row with distinct labels: the value under the label, a
  \<open>KeyError\<close> when there is none.
\<close>

definition getitem :: "row \<Rightarrow> string \<Rightarrow> exn + cell" where
  "getitem r label = (case map_of r label of None \<Rightarrow> Inl (KeyError label) | Some v \<Rightarrow> Inr v)"

text \<open>\<open>s.replace(a, b)\<close> for one-character strings \<open>a\<close> and \<open>b\<close>.\<close>

definition replace_char :: "char \<Rightarrow> char \<Rightarrow> string \<Rightarrow> string" where
  "replace_char a b s = map (\<lambda>c. if c = a then b else c) s"

text \<open>\<open>sub in s\<close> on strings: \<open>sub\<close> occurs in \<open>s\<close> as a contiguous piece.\<close>

fun str_in :: "string \<Rightarrow> string \<Rightarrow> bool" where
  "str_in sub [] = (sub = [])"
| "str_in sub (c # cs) = (prefix sub (c # cs) \<or> str_in sub cs)"

text \<open>\<open>s.split('/')[-1]\<close>: what follows the last slash (all of \<open>s\<close> without one).\<close>

definition last_segment :: "string \<Rightarrow> string" where
  "last_segment s = rev (takeWhile (\<lambda>c. c \<noteq> CHR ''/'') (rev s))"

text \<open>
  \<open>df[col]\<close> on a table with distinct column labels, the column as a list of cells
  in row order (a row without the label contributes the missing value),
  \<open>df[cols]\<close>, the projection onto a list of labels in the order of the list, and
  \<open>df[mask]\<close>, the rows where the mask holds.
\<close>

definition column_values :: "dataframe \<Rightarrow> string \<Rightarrow> cell list" where
  "column_values df col =
     map (\<lambda>ir. case map_of (snd ir) col of None \<Rightarrow> None | Some v \<Rightarrow> v) (rows df)"

definition project_row :: "string list \<Rightarrow> row \<Rightarrow> row" where
  "project_row cols r = concat (map (\<lambda>c. filter (\<lambda>lv. fst lv = c) r) cols)"

definition project :: "dataframe \<Rightarrow> string list \<Rightarrow> dataframe" where
  "project df cols =
     \<lparr>columns = concat (map (\<lambda>c. filter (\<lambda>l. l = c) (columns df)) cols),
      rows = map (\<lambda>ir. (fst ir, project_row cols (snd ir))) (rows df)\<rparr>"

definition boolean_index :: "dataframe \<Rightarrow> bool list \<Rightarrow> dataframe" where
  "boolean_index df keep = df\<lparr>rows := map fst (filter snd (zip (rows df) keep))\<rparr>"

section \<open>Correlating rows with supplementary files\<close>

text \<open>
  The storage collaborator (\<open>Path.exists\<close>, \<open>shutil.copy2\<close>, \<open>Path.mkdir\<close>) is a
  parameter, over any type \<open>'fs\<close> of store states. \<open>copy2\<close> and \<open>mkdir\<close> answer
  with the text of the exception they raise, if any, and with the store they leave behind.
\<close>

record 'fs storage =
  path_exists :: "'fs \<Rightarrow> path \<Rightarrow> bool"
  copy2 :: "'fs \<Rightarrow> path \<Rightarrow> path \<Rightarrow> string option \<times> 'fs"
  mkdir :: "'fs \<Rightarrow> path \<Rightarrow> string option \<times> 'fs"

text \<open>
  What \<open>rename_supplementary_files\<close> mutates: the dictionary \<open>renamed_files\<close> (in
  insertion order; assigning to a key it has replaces the value in place), the log, and
  the store.
\<close>

record 'fs rename_state =
  renamed_files :: "(string \<times> string) list"
  logged :: "log_record list"
  store :: "'fs"

text \<open>
  The identifier for renaming: when the identifier column is a label of the row and its
  value is not missing, \<open>str\<close> of the value with spaces, then slashes, replaced by
  underscores; otherwise the value under \<open>geo_accession\<close>.
\<close>

definition get_identifier :: "row \<Rightarrow> string \<Rightarrow> cell \<Rightarrow> cell" where
  "get_identifier r identifier_column geo_accession =
     (case getitem r identifier_column of
        Inl _ \<Rightarrow> geo_accession
      | Inr v \<Rightarrow>
          if notna v
          then Some (replace_char CHR ''/'' CHR ''_'' (replace_char CHR '' '' CHR ''_'' (py_str v)))
          else geo_accession)"

text \<open>
  The legacy script's identifier, \<open>row['source_name_ch1'].replace(' ', '_')\<close>: the
  label must be there, the missing value (a float) has no \<open>replace\<close>, and spaces
  alone are replaced.
\<close>

definition legacy_source_name :: "row \<Rightarrow> exn + string" where
  "legacy_source_name r =
     (case getitem r ''source_name_ch1'' of
        Inl e \<Rightarrow> Inl e
      | Inr None \<Rightarrow> Inl (Raised (quoted ''float'' @ '' object has no attribute '' @ quoted ''replace''))
      | Inr (Some s) \<Rightarrow> Inr (replace_char CHR '' '' CHR ''_'' s))"

text \<open>
  The scan for the supplementary file URL, on a row with distinct labels (so that
  \<open>row[col]\<close> is the value listed with \<open>col\<close>): the labels in order, stopping
  at the first whose name contains \<open>supplementary_file\<close> and whose value is not
  missing; the missing value when the scan finds none.
\<close>

fun find_supp_url :: "row \<Rightarrow> cell" where
  "find_supp_url [] = None"
| "find_supp_url ((col, v) # rest) =
     (if str_in ''supplementary_file'' col \<and> notna v then v else find_supp_url rest)"

definition new_filename :: "cell \<Rightarrow> string \<Rightarrow> string" where
  "new_filename identifier original_filename = py_str identifier @ ''-'' @ original_filename"

text \<open>
  The body of the \<open>try\<close> for one row with distinct labels. It answers with the
  exception that left it, if any, and the state at that point.
\<close>

definition rename_row ::
  "'fs storage \<Rightarrow> string \<Rightarrow> string \<Rightarrow> string \<Rightarrow> 'fs rename_state \<Rightarrow> row
     \<Rightarrow> exn option \<times> 'fs rename_state" where
  "rename_row S source_dir output_dir identifier_column st r =
     (case getitem r ''geo_accession'' of
        Inl e \<Rightarrow> (Some e, st)
      | Inr geo_accession \<Rightarrow>
          let identifier = get_identifier r identifier_column geo_accession in
          (case find_supp_url r of
             None \<Rightarrow> (None, st)
           | Some supp_file_url \<Rightarrow>
               if supp_file_url = [] then (None, st)
               else
                 let original_filename = last_segment supp_file_url in
                 if path_exists S (store st) (Join (Path source_dir) original_filename)
                 then
                   (case copy2 S (store st) (Join (Path source_dir) original_filename)
                           (Join (Path output_dir) (new_filename identifier original_filename)) of
                      (Some msg, fs') \<Rightarrow> (Some (Raised msg), st\<lparr>store := fs'\<rparr>)
                    | (None, fs') \<Rightarrow>
                        (None,
                         st\<lparr>store := fs',
                            renamed_files :=
                              AList.update original_filename
                                (new_filename identifier original_filename) (renamed_files st),
                            logged := logged st @
                              [(INFO, [Txt ''Renamed: '', Txt original_filename, Txt '' -> '',
                                       Txt (new_filename identifier original_filename)])]\<rparr>))
                 else
                   (None,
                    st\<lparr>logged := logged st @
                      [(WARNING, [Txt ''Original file not found: '', Txt original_filename])]\<rparr>)))"

text \<open>One turn of the loop: the \<open>try\<close> body, and the handler that logs the exception.\<close>

definition rename_step ::
  "'fs storage \<Rightarrow> string \<Rightarrow> string \<Rightarrow> string \<Rightarrow> 'fs rename_state \<Rightarrow> string \<times> row
     \<Rightarrow> 'fs rename_state" where
  "rename_step S source_dir output_dir identifier_column st ir =
     (case rename_row S source_dir output_dir identifier_column st (snd ir) of
        (None, st') \<Rightarrow> st'
      | (Some e, st') \<Rightarrow>
          st'\<lparr>logged := logged st' @
            [(ERROR, [Txt ''Error renaming file for '', Txt (fst ir), Txt '': ''] @ exn_str e)]\<rparr>)"

fun rename_loop ::
  "'fs storage \<Rightarrow> string \<Rightarrow> string \<Rightarrow> string \<Rightarrow> 'fs rename_state \<Rightarrow> (string \<times> row) list
     \<Rightarrow> 'fs rename_state" where
  "rename_loop S source_dir output_dir identifier_column st [] = st"
| "rename_loop S source_dir output_dir identifier_column st (ir # irs) =
     rename_loop S source_dir output_dir identifier_column
       (rename_step S source_dir output_dir identifier_column st ir) irs"

text \<open>
  The whole operation (its \<open>gse\<close> argument is never read). Creating the output
  directory happens before the loop and outside every \<open>try\<close>: what it raises
  leaves the function.
\<close>

definition rename_supplementary_files ::
  "'fs storage \<Rightarrow> 'fs \<Rightarrow> dataframe \<Rightarrow> string \<Rightarrow> string \<Rightarrow> string \<Rightarrow> exn + 'fs rename_state" where
  "rename_supplementary_files S fs metadata_df source_dir output_dir identifier_column =
     (case mkdir S fs (Path output_dir) of
        (Some msg, fs') \<Rightarrow> Inl (Raised msg)
      | (None, fs') \<Rightarrow>
          let st = rename_loop S source_dir output_dir identifier_column
                     \<lparr>renamed_files = [],
                      logged = [(INFO, [Txt ''Renaming supplementary files based on metadata...''])],
                      store = fs'\<rparr>
                     (rows metadata_df)
          in Inr (st\<lparr>logged := logged st @
                   [(INFO, [Txt ''Renamed '', Num (length (renamed_files st)), Txt '' files''])]\<rparr>))"

subsection \<open>What happened to each row\<close>






subsection \<open>The identifier as the specification words it\<close>

text \<open>
  The specification's sanitising: every run of whitespace characters becomes one
  underscore, and so does every path separator.
\<close>

definition is_space :: "char \<Rightarrow> bool" where
  "is_space c = (c \<in> set [CHR '' '', CHR 0x09, CHR 0x0A, CHR 0x0B, CHR 0x0C, CHR 0x0D])"

definition is_path_separator :: "char \<Rightarrow> bool" where
  "is_path_separator c = (c = CHR ''/'')"

fun spec_sanitize_from :: "bool \<Rightarrow> string \<Rightarrow> string" where
  "spec_sanitize_from in_run [] = []"
| "spec_sanitize_from in_run (c # cs) =
     (if is_space c
      then (if in_run then spec_sanitize_from True cs else CHR ''_'' # spec_sanitize_from True cs)
      else if is_path_separator c then CHR ''_'' # spec_sanitize_from False cs
      else c # spec_sanitize_from False cs)"

definition spec_sanitize :: "string \<Rightarrow> string" where
  "spec_sanitize s = spec_sanitize_from False s"

section \<open>Operations with effects\<close>

text \<open>
  The other operations log, and some of them reach collaborators (the network, the
  disk). The environment holds the log and the collaborators' world, of any type
  \<open>'w\<close>. An action takes the environment and answers with the exception it raised or
  its value, and the environment it left.
\<close>

record 'w env =
  env_log :: "log_record list"
  world :: "'w"

type_synonym ('a, 'w) act = "'w env \<Rightarrow> (exn + 'a) \<times> 'w env"

definition succeed :: "'a \<Rightarrow> ('a, 'w) act" where
  "succeed a e = (Inr a, e)"

definition raise :: "exn \<Rightarrow> ('a, 'w) act" where
  "raise x e = (Inl x, e)"

definition and_then :: "('a, 'w) act \<Rightarrow> ('a \<Rightarrow> ('b, 'w) act) \<Rightarrow> ('b, 'w) act" where
  "and_then m f e = (case m e of (Inl x, e') \<Rightarrow> (Inl x, e') | (Inr a, e') \<Rightarrow> f a e')"

text \<open>\<open>try: m except Exception as x: h x\<close>.\<close>

definition try_except :: "('a, 'w) act \<Rightarrow> (exn \<Rightarrow> ('a, 'w) act) \<Rightarrow> ('a, 'w) act" where
  "try_except m h e = (case m e of (Inl x, e') \<Rightarrow> h x e' | (Inr a, e') \<Rightarrow> (Inr a, e'))"

definition say :: "level \<Rightarrow> fpart list \<Rightarrow> (unit, 'w) act" where
  "say lvl msg e = (Inr (), e\<lparr>env_log := env_log e @ [(lvl, msg)]\<rparr>)"

text \<open>A collaborator's call that returns nothing: it raises, or not, and changes the world.\<close>

definition call :: "('w \<Rightarrow> string option \<times> 'w) \<Rightarrow> (unit, 'w) act" where
  "call f e =
     (case f (world e) of
        (Some msg, w') \<Rightarrow> (Inl (Raised msg), e\<lparr>world := w'\<rparr>)
      | (None, w') \<Rightarrow> (Inr (), e\<lparr>world := w'\<rparr>))"

subsection \<open>The dataset object and the collaborators\<close>

text \<open>
  The GSE object, with the attributes the code reads. \<open>metadata\<close> maps a key to a list
  of strings, and so does each platform's.
\<close>

record gse =
  gse_name :: string
  gse_metadata :: "(string \<times> string list) list"
  gpls :: "(string \<times> (string \<times> string list) list) list"
  phenotype_data :: dataframe
  supplementary_files :: "string list"

record summary =
  s_gse_id :: string
  s_title :: string
  s_summary :: string
  s_overall_design :: string
  s_submission_date :: string
  s_last_update_date :: string
  s_pubmed_id :: string
  s_platform_count :: nat
  s_sample_count :: nat
  s_supplementary_file_count :: nat
  s_columns_in_metadata :: "string list"
  s_platforms :: "(string \<times> string \<times> string \<times> string) list option"
  s_sample_type_distribution :: "(string \<times> nat) list option"

text \<open>
  The collaborators of the processor: creating a directory with its parents, GEOparse's
  \<open>get_GEO\<close> and \<open>download_from_url\<close>, and writing a table or a summary to a file.
  The regular-expression engine behind \<open>str.contains\<close>: \<open>re_error\<close> is the message
  of the error compiling the pattern raises, if any, and \<open>re_search ignore_case pattern s\<close>
  tells whether the pattern matches somewhere in \<open>s\<close>.
\<close>

record 'w services =
  make_dirs :: "'w \<Rightarrow> path \<Rightarrow> string option \<times> 'w"
  get_GEO :: "'w \<Rightarrow> string \<Rightarrow> path \<Rightarrow> (string + gse) \<times> 'w"
  download_from_url :: "'w \<Rightarrow> string \<Rightarrow> path \<Rightarrow> string option \<times> 'w"
  to_csv :: "'w \<Rightarrow> dataframe \<Rightarrow> path \<Rightarrow> string option \<times> 'w"
  json_dump :: "'w \<Rightarrow> summary \<Rightarrow> path \<Rightarrow> string option \<times> 'w"
  re_error :: "string \<Rightarrow> string option"
  re_search :: "bool \<Rightarrow> string \<Rightarrow> string \<Rightarrow> bool"

text \<open>\<open>md.get(key, ['N/A'])[0]\<close>.\<close>

definition meta_first :: "(string \<times> string list) list \<Rightarrow> string \<Rightarrow> (string, 'w) act" where
  "meta_first md key =
     (case map_of md key of
        None \<Rightarrow> succeed ''N/A''
      | Some [] \<Rightarrow> raise IndexError
      | Some (x # _) \<Rightarrow> succeed x)"

subsection \<open>Counting the values of a column\<close>

text \<open>The values of a column that are not missing, in row order.\<close>

fun present_values :: "cell list \<Rightarrow> string list" where
  "present_values [] = []"
| "present_values (None # vs) = present_values vs"
| "present_values (Some s # vs) = s # present_values vs"

text \<open>The distinct elements of a list, in the order in which they first occur.\<close>

fun first_seen :: "string list \<Rightarrow> string list" where
  "first_seen [] = []"
| "first_seen (x # xs) = x # filter (\<lambda>y. y \<noteq> x) (first_seen xs)"

text \<open>
  Modelled from the spec: pandas' \<open>Series.value_counts\<close>, which the repository calls
  (with its default arguments) and does not contain. The specification's words for it:
  absent cell values are excluded from the count; counts are exact; the entries are
  ordered by descending count, ties in first-encountered order. Here: each distinct
  present value with the number of its occurrences, in order of first occurrence, sorted
  by descending count with a stable sort.
\<close>

definition value_counts :: "cell list \<Rightarrow> (string \<times> nat) list" where
  "value_counts vs =
     sort_key (\<lambda>vn. - int (snd vn))
       (map (\<lambda>v. (v, count_list (present_values vs) v)) (first_seen (present_values vs)))"

subsection \<open>The processor's operations\<close>

text \<open>\<open>GEODataProcessor(output_dir)\<close>: the constructor creates the directory.\<close>

definition init_processor :: "'w services \<Rightarrow> path \<Rightarrow> (unit, 'w) act" where
  "init_processor C output_dir =
     and_then (call (\<lambda>w. make_dirs C w output_dir)) (\<lambda>_.
     say INFO [Txt ''GEO Data Processor initialized with output dir: '', Pth output_dir])"

text \<open>\<open>download_geo_dataset\<close> with no \<open>destdir\<close>: it logs what is raised and raises it again.\<close>

definition download_geo_dataset :: "'w services \<Rightarrow> path \<Rightarrow> string \<Rightarrow> (gse, 'w) act" where
  "download_geo_dataset C output_dir gse_id =
     and_then (say INFO [Txt ''Downloading GEO dataset: '', Txt gse_id]) (\<lambda>_.
     try_except
       (and_then
          (\<lambda>e. case get_GEO C (world e) gse_id (Join output_dir gse_id) of
                  (Inl msg, w') \<Rightarrow> (Inl (Raised msg), e\<lparr>world := w'\<rparr>)
                | (Inr g, w') \<Rightarrow> (Inr g, e\<lparr>world := w'\<rparr>)) (\<lambda>g.
        and_then (say INFO [Txt ''Successfully downloaded '', Txt gse_id]) (\<lambda>_.
        and_then (meta_first (gse_metadata g) ''title'') (\<lambda>title.
        and_then (say INFO [Txt ''Dataset title: '', Txt title]) (\<lambda>_.
        and_then (say INFO [Txt ''Number of samples: '',
                    Num (length (rows (phenotype_data g)))]) (\<lambda>_.
        and_then (say INFO [Txt ''Number of supplementary files: '',
                    Num (length (supplementary_files g))]) (\<lambda>_.
        succeed g)))))))
       (\<lambda>x. and_then (say ERROR ([Txt ''Error downloading '', Txt gse_id, Txt '': ''] @ exn_str x))
              (\<lambda>_. raise x)))"

text \<open>
  One supplementary file, inside its own \<open>try\<close>: the list of downloaded names grows
  when the download succeeds, and the failure is logged otherwise.
\<close>

definition download_one ::
  "'w services \<Rightarrow> path \<Rightarrow> string list \<Rightarrow> string \<Rightarrow> (string list, 'w) act" where
  "download_one C output_dir downloaded_files supp_file =
     try_except
       (and_then (say INFO [Txt ''Downloading: '', Txt (last_segment supp_file)]) (\<lambda>_.
        and_then (call (\<lambda>w. download_from_url C w supp_file
                          (Join output_dir (last_segment supp_file)))) (\<lambda>_.
        and_then (say INFO [Txt ''Successfully downloaded: '', Txt (last_segment supp_file)]) (\<lambda>_.
        succeed (downloaded_files @ [last_segment supp_file])))))
       (\<lambda>x. and_then (say ERROR ([Txt ''Failed to download '', Txt supp_file, Txt '': ''] @ exn_str x))
              (\<lambda>_. succeed downloaded_files))"

fun download_each ::
  "'w services \<Rightarrow> path \<Rightarrow> string list \<Rightarrow> string list \<Rightarrow> 'w env
     \<Rightarrow> (exn + string list) \<times> 'w env" where
  "download_each C output_dir downloaded_files [] e = (Inr downloaded_files, e)"
| "download_each C output_dir downloaded_files (supp_file # rest) e =
     (case download_one C output_dir downloaded_files supp_file e of
        (Inl x, e') \<Rightarrow> (Inl x, e')
      | (Inr downloaded_files', e') \<Rightarrow> download_each C output_dir downloaded_files' rest e')"

definition download_supplementary_files ::
  "'w services \<Rightarrow> gse \<Rightarrow> path \<Rightarrow> (string list, 'w) act" where
  "download_supplementary_files C g output_dir =
     (if supplementary_files g = []
      then and_then (say INFO [Txt ''No supplementary files available for download''])
             (\<lambda>_. succeed [])
      else
        and_then (say INFO [Txt ''Downloading '', Num (length (supplementary_files g)),
                    Txt '' supplementary files...'']) (\<lambda>_.
        and_then (download_each C output_dir [] (supplementary_files g)) (\<lambda>downloaded_files.
        and_then (say INFO [Txt ''Downloaded '', Num (length downloaded_files),
                    Txt '' supplementary files'']) (\<lambda>_.
        succeed downloaded_files))))"

text \<open>Writing a table when an output file is given.\<close>

definition save_table ::
  "'w services \<Rightarrow> dataframe \<Rightarrow> path option \<Rightarrow> string \<Rightarrow> (unit, 'w) act" where
  "save_table C df output_file what =
     (case output_file of
        None \<Rightarrow> succeed ()
      | Some file \<Rightarrow>
          and_then (call (\<lambda>w. to_csv C w df file)) (\<lambda>_.
          say INFO [Txt what, Pth file]))"

text \<open>
  The column selection of \<open>extract_metadata\<close>; \<open>selected_columns\<close> counts as given
  when it is a list with an element.
\<close>

definition select_columns :: "dataframe \<Rightarrow> string list option \<Rightarrow> (dataframe, 'w) act" where
  "select_columns metadata_df selected_columns =
     (case selected_columns of
        None \<Rightarrow> succeed metadata_df
      | Some selected \<Rightarrow>
          if selected = [] then succeed metadata_df
          else
            let available_cols = filter (\<lambda>col. col \<in> set (columns metadata_df)) selected;
                missing_cols = filter (\<lambda>col. col \<notin> set (columns metadata_df)) selected
            in
              and_then
                (if available_cols \<noteq> []
                 then and_then (say INFO [Txt ''Selected '', Num (length available_cols),
                                  Txt '' columns from metadata: '', StrList available_cols])
                        (\<lambda>_. succeed (project metadata_df available_cols))
                 else and_then (say WARNING [Txt ''None of the specified columns found in metadata''])
                        (\<lambda>_. succeed metadata_df)) (\<lambda>df.
              and_then
                (if missing_cols \<noteq> []
                 then say WARNING [Txt ''Missing columns: '', StrList missing_cols]
                 else succeed ()) (\<lambda>_.
              succeed df)))"

definition extract_metadata ::
  "'w services \<Rightarrow> gse \<Rightarrow> string list option \<Rightarrow> path option \<Rightarrow> (dataframe, 'w) act" where
  "extract_metadata C g selected_columns output_file =
     and_then (say INFO [Txt ''Extracting metadata...'']) (\<lambda>_.
     and_then (say INFO [Txt ''Total metadata columns: '',
                 Num (length (columns (phenotype_data g)))]) (\<lambda>_.
     and_then (say INFO [Txt ''Available columns: '', StrList (columns (phenotype_data g))]) (\<lambda>_.
     and_then (select_columns (phenotype_data g) selected_columns) (\<lambda>metadata_df.
     and_then (save_table C metadata_df output_file ''Metadata saved to: '') (\<lambda>_.
     succeed metadata_df)))))"

text \<open>
  \<open>series.str.contains(pattern, case=..., na=False, regex=True)\<close>: the pattern is
  compiled, then searched in every value that is not missing; a missing value gives
  \<open>False\<close>.
\<close>

definition str_contains ::
  "'w services \<Rightarrow> cell list \<Rightarrow> string \<Rightarrow> bool \<Rightarrow> (bool list, 'w) act" where
  "str_contains C series pattern case_sensitive =
     (case re_error C pattern of
        Some msg \<Rightarrow> raise (Raised msg)
      | None \<Rightarrow>
          succeed (map (\<lambda>v. case v of None \<Rightarrow> False
                                | Some s \<Rightarrow> re_search C (\<not> case_sensitive) pattern s) series))"

definition filter_samples_by_criteria ::
  "'w services \<Rightarrow> dataframe \<Rightarrow> string \<Rightarrow> string \<Rightarrow> bool \<Rightarrow> (dataframe, 'w) act" where
  "filter_samples_by_criteria C metadata_df filter_column filter_pattern case_sensitive =
     (if filter_column \<notin> set (columns metadata_df)
      then raise (ValueError [Txt ''Column '', Txt (quoted filter_column),
                    Txt '' not found in metadata. Available columns: '',
                    StrList (columns metadata_df)])
      else
        and_then (say INFO [Txt ''Filtering samples on '', Txt (quoted filter_column),
                    Txt '' with pattern: '', Txt (quoted filter_pattern)]) (\<lambda>_.
        and_then (str_contains C (column_values metadata_df filter_column) filter_pattern
                    case_sensitive) (\<lambda>keep.
        let filtered_df = boolean_index metadata_df keep in
        and_then (say INFO [Txt ''Filtered from '', Num (length (rows metadata_df)), Txt '' to '',
                    Num (length (rows filtered_df)), Txt '' samples'']) (\<lambda>_.
        and_then
          (if length (rows filtered_df) = 0
           then say WARNING [Txt ''No samples found matching pattern '',
                  Txt (quoted filter_pattern), Txt '' in column '', Txt (quoted filter_column)]
           else succeed ()) (\<lambda>_.
        succeed filtered_df)))))"

definition get_unique_values :: "dataframe \<Rightarrow> string \<Rightarrow> ((string \<times> nat) list, 'w) act" where
  "get_unique_values metadata_df column =
     (if column \<notin> set (columns metadata_df)
      then raise (ValueError [Txt ''Column '', Txt (quoted column), Txt '' not found in metadata''])
      else
        let unique_values = value_counts (column_values metadata_df column) in
        and_then (say INFO [Txt ''Unique values in '', Txt (quoted column), Txt '' column:'']) (\<lambda>_.
        and_then (\<lambda>e. (Inr (),
                    e\<lparr>env_log := env_log e @
                      map (\<lambda>vn. (INFO, [Txt ''  '', Txt (fst vn), Txt '': '', Num (snd vn)]))
                        unique_values\<rparr>)) (\<lambda>_.
        succeed unique_values)))"

text \<open>\<open>create_sample_annotation\<close> with the default key columns.\<close>

definition create_sample_annotation ::
  "'w services \<Rightarrow> dataframe \<Rightarrow> path option \<Rightarrow> (dataframe, 'w) act" where
  "create_sample_annotation C metadata_df output_file =
     and_then (say INFO [Txt ''Creating sample annotation...'']) (\<lambda>_.
     let key_columns = [''title'', ''geo_accession'', ''source_name_ch1'',
                        ''characteristics_ch1'', ''description'', ''supplementary_file''];
         available_cols = filter (\<lambda>col. col \<in> set (columns metadata_df)) key_columns
     in
       and_then
         (if available_cols \<noteq> []
          then and_then (say INFO [Txt ''Created annotation with '', Num (length available_cols),
                           Txt '' columns: '', StrList available_cols])
                 (\<lambda>_. succeed (project metadata_df available_cols))
          else and_then (say INFO [Txt ''Using all metadata columns for annotation''])
                 (\<lambda>_. succeed metadata_df)) (\<lambda>df.
       let annotation_df =
             \<lparr>columns = map (replace_char CHR '' '' CHR ''_'') (columns df),
              rows = map (\<lambda>ir. (fst ir,
                       map (\<lambda>lv. (replace_char CHR '' '' CHR ''_'' (fst lv), snd lv)) (snd ir)))
                       (rows df)\<rparr>
       in
         and_then (save_table C annotation_df output_file ''Sample annotation saved to: '') (\<lambda>_.
         succeed annotation_df)))"

text \<open>The platform entries of the summary, one per platform, in the order of \<open>gpls\<close>.\<close>

fun platform_entries ::
  "(string \<times> (string \<times> string list) list) list \<Rightarrow> 'w env
     \<Rightarrow> (exn + (string \<times> string \<times> string \<times> string) list) \<times> 'w env" where
  "platform_entries [] e = (Inr [], e)"
| "platform_entries ((platform_id, md) # rest) e =
     (case and_then (meta_first md ''title'') (\<lambda>title.
           and_then (meta_first md ''technology'') (\<lambda>technology.
           and_then (meta_first md ''organism'') (\<lambda>organism.
           succeed (title, technology, organism)))) e of
        (Inl x, e') \<Rightarrow> (Inl x, e')
      | (Inr entry, e') \<Rightarrow>
          (case platform_entries rest e' of
             (Inl x, e'') \<Rightarrow> (Inl x, e'')
           | (Inr entries, e'') \<Rightarrow> (Inr ((platform_id, entry) # entries), e'')))"

definition generate_dataset_summary ::
  "'w services \<Rightarrow> gse \<Rightarrow> dataframe \<Rightarrow> path option \<Rightarrow> (summary, 'w) act" where
  "generate_dataset_summary C g metadata_df output_file =
     and_then (say INFO [Txt ''Generating dataset summary...'']) (\<lambda>_.
     and_then (meta_first (gse_metadata g) ''title'') (\<lambda>title.
     and_then (meta_first (gse_metadata g) ''summary'') (\<lambda>summ.
     and_then (meta_first (gse_metadata g) ''overall_design'') (\<lambda>overall_design.
     and_then (meta_first (gse_metadata g) ''submission_date'') (\<lambda>submission_date.
     and_then (meta_first (gse_metadata g) ''last_update_date'') (\<lambda>last_update_date.
     and_then (meta_first (gse_metadata g) ''pubmed_id'') (\<lambda>pubmed_id.
     and_then (if gpls g = [] then succeed None
               else and_then (platform_entries (gpls g)) (\<lambda>ps. succeed (Some ps))) (\<lambda>platforms.
     let s = \<lparr>s_gse_id = gse_name g, s_title = title, s_summary = summ,
              s_overall_design = overall_design, s_submission_date = submission_date,
              s_last_update_date = last_update_date, s_pubmed_id = pubmed_id,
              s_platform_count = length (gpls g), s_sample_count = length (rows metadata_df),
              s_supplementary_file_count = length (supplementary_files g),
              s_columns_in_metadata = columns metadata_df,
              s_platforms = platforms,
              s_sample_type_distribution =
                (if ''source_name_ch1'' \<in> set (columns metadata_df)
                 then Some (value_counts (column_values metadata_df ''source_name_ch1''))
                 else None)\<rparr>
     in
       and_then (say INFO [Txt ''=== Dataset Summary ==='']) (\<lambda>_.
       and_then (say INFO [Txt ''GSE ID: '', Txt (s_gse_id s)]) (\<lambda>_.
       and_then (say INFO [Txt ''Title: '', Txt (s_title s)]) (\<lambda>_.
       and_then (say INFO [Txt ''Samples: '', Num (s_sample_count s)]) (\<lambda>_.
       and_then (say INFO [Txt ''Platforms: '', Num (s_platform_count s)]) (\<lambda>_.
       and_then (say INFO [Txt ''Supplementary files: '', Num (s_supplementary_file_count s)]) (\<lambda>_.
       and_then
         (case s_sample_type_distribution s of
            None \<Rightarrow> succeed ()
          | Some dist \<Rightarrow>
              and_then (say INFO [Txt ''Sample type distribution:'']) (\<lambda>_.
              (\<lambda>e. (Inr (),
                 e\<lparr>env_log := env_log e @
                   map (\<lambda>vn. (INFO, [Txt ''  '', Txt (fst vn), Txt '': '', Num (snd vn)]))
                     dist\<rparr>)))) (\<lambda>_.
       and_then
         (case output_file of
            None \<Rightarrow> succeed ()
          | Some file \<Rightarrow>
              and_then (call (\<lambda>w. json_dump C w s file)) (\<lambda>_.
              say INFO [Txt ''Summary saved to: '', Pth file])) (\<lambda>_.
       succeed s))))))))))))))))"

section \<open>Batch processing\<close>

text \<open>An entry of the result dictionary: its \<open>status\<close> is \<open>success\<close> or \<open>error\<close>.\<close>

datatype batch_result =
  Success gse dataframe "dataframe option" "string list" summary path
| Failure "fpart list"

fun is_success :: "batch_result \<Rightarrow> bool" where
  "is_success (Success _ _ _ _ _ _) = True"
| "is_success (Failure _) = False"

text \<open>
  The filtering stage of the batch, with its own \<open>try\<close>: it runs when a pattern is given
  (a string with a character) and the column exists; what it raises is logged, and the
  filtered table keeps the value it had at that point.
\<close>

definition filter_stage ::
  "'w services \<Rightarrow> dataframe \<Rightarrow> string option \<Rightarrow> string \<Rightarrow> path \<Rightarrow> (dataframe option, 'w) act" where
  "filter_stage C metadata filter_pattern filter_column filtered_file =
     (case filter_pattern of
        None \<Rightarrow> succeed None
      | Some pattern \<Rightarrow>
          if pattern \<noteq> [] \<and> filter_column \<in> set (columns metadata)
          then
            (\<lambda>e. case filter_samples_by_criteria C metadata filter_column pattern False e of
                    (Inl x, e') \<Rightarrow>
                      and_then (say ERROR ([Txt ''Error filtering samples: ''] @ exn_str x))
                        (\<lambda>_. succeed None) e'
                  | (Inr filtered_metadata, e') \<Rightarrow>
                      if length (rows filtered_metadata) > 0
                      then try_except
                             (and_then (call (\<lambda>w. to_csv C w filtered_metadata filtered_file))
                                (\<lambda>_. succeed (Some filtered_metadata)))
                             (\<lambda>x. and_then
                                     (say ERROR ([Txt ''Error filtering samples: ''] @ exn_str x))
                                     (\<lambda>_. succeed (Some filtered_metadata))) e'
                      else (Inr (Some filtered_metadata), e'))
          else succeed None)"

text \<open>The body of the \<open>try\<close> for one dataset.\<close>

definition process_dataset ::
  "'w services \<Rightarrow> path \<Rightarrow> bool \<Rightarrow> string option \<Rightarrow> string \<Rightarrow> string \<Rightarrow> (batch_result, 'w) act" where
  "process_dataset C base_path download_supplementary filter_pattern filter_column gse_id =
     (let dataset_dir = Join base_path gse_id in
      and_then (init_processor C dataset_dir) (\<lambda>_.
      and_then (download_geo_dataset C dataset_dir gse_id) (\<lambda>g.
      and_then (extract_metadata C g None
                  (Some (Join dataset_dir (gse_id @ ''_metadata.tsv'')))) (\<lambda>metadata.
      and_then (if download_supplementary then download_supplementary_files C g dataset_dir
                else succeed []) (\<lambda>supplementary.
      and_then (filter_stage C metadata filter_pattern filter_column
                  (Join dataset_dir (gse_id @ ''_filtered_metadata.tsv''))) (\<lambda>filtered_metadata.
      and_then (generate_dataset_summary C g metadata
                  (Some (Join dataset_dir (gse_id @ ''_summary.json'')))) (\<lambda>summ.
      and_then (create_sample_annotation C metadata
                  (Some (Join dataset_dir (gse_id @ ''_sample_annotation.tsv'')))) (\<lambda>annotation.
      succeed (Success g metadata filtered_metadata supplementary summ dataset_dir)))))))))"

text \<open>The lines the loop logs before it turns to a dataset.\<close>

definition announce :: "string \<Rightarrow> 'w env \<Rightarrow> 'w env" where
  "announce gse_id e =
     e\<lparr>env_log := env_log e @
       [(INFO, [Txt (CHR 0x0A # replicate 50 CHR ''='')]),
        (INFO, [Txt ''Processing dataset: '', Txt gse_id]),
        (INFO, [Txt (replicate 50 CHR ''='')])]\<rparr>"

text \<open>
  The entry one turn of the loop stores under the dataset id: the \<open>try\<close> body's
  success entry, or the handler's error entry with \<open>str(e)\<close>.
\<close>

definition attempt ::
  "'w services \<Rightarrow> path \<Rightarrow> bool \<Rightarrow> string option \<Rightarrow> string \<Rightarrow> 'w env \<Rightarrow> string
     \<Rightarrow> batch_result \<times> 'w env" where
  "attempt C base_path download_supplementary filter_pattern filter_column e gse_id =
     (case process_dataset C base_path download_supplementary filter_pattern filter_column
             gse_id (announce gse_id e) of
        (Inr r, e') \<Rightarrow>
          (r, e'\<lparr>env_log := env_log e' @
                [(INFO, [Txt ''Successfully processed '', Txt gse_id])]\<rparr>)
      | (Inl x, e') \<Rightarrow>
          (Failure (exn_str x),
           e'\<lparr>env_log := env_log e' @
             [(ERROR, [Txt ''Error processing '', Txt gse_id, Txt '': ''] @ exn_str x)]\<rparr>))"

text \<open>
  One turn of the batch loop: \<open>results[gse_id] = entry\<close>. Assigning to an id the
  dictionary has replaces its entry.
\<close>

definition batch_step ::
  "'w services \<Rightarrow> path \<Rightarrow> bool \<Rightarrow> string option \<Rightarrow> string
     \<Rightarrow> (string \<times> batch_result) list \<times> 'w env \<Rightarrow> string
     \<Rightarrow> (string \<times> batch_result) list \<times> 'w env" where
  "batch_step C base_path download_supplementary filter_pattern filter_column re gse_id =
     (case attempt C base_path download_supplementary filter_pattern filter_column (snd re)
             gse_id of
        (entry, e') \<Rightarrow> (AList.update gse_id entry (fst re), e'))"

fun batch_loop ::
  "'w services \<Rightarrow> path \<Rightarrow> bool \<Rightarrow> string option \<Rightarrow> string
     \<Rightarrow> (string \<times> batch_result) list \<times> 'w env \<Rightarrow> string list
     \<Rightarrow> (string \<times> batch_result) list \<times> 'w env" where
  "batch_loop C base_path download_supplementary filter_pattern filter_column re [] = re"
| "batch_loop C base_path download_supplementary filter_pattern filter_column re (gse_id # rest) =
     batch_loop C base_path download_supplementary filter_pattern filter_column
       (batch_step C base_path download_supplementary filter_pattern filter_column re gse_id) rest"

text \<open>
  The counts of the batch summary, as the code computes them from the result dictionary.
\<close>

definition successful :: "(string \<times> batch_result) list \<Rightarrow> nat" where
  "successful results = length (filter is_success (map snd results))"

definition failed :: "(string \<times> batch_result) list \<Rightarrow> nat" where
  "failed results = length results - successful results"

text \<open>
  The whole batch. Creating the base directory happens before the loop and outside every
  \<open>try\<close>.
\<close>

definition process_multiple_datasets ::
  "'w services \<Rightarrow> string list \<Rightarrow> string \<Rightarrow> bool \<Rightarrow> string option \<Rightarrow> string
     \<Rightarrow> ((string \<times> batch_result) list, 'w) act" where
  "process_multiple_datasets C gse_ids output_base_dir download_supplementary filter_pattern
     filter_column =
     and_then (say INFO [Txt ''Processing '', Num (length gse_ids), Txt '' datasets in batch...''])
       (\<lambda>_.
     and_then (call (\<lambda>w. make_dirs C w (Path output_base_dir))) (\<lambda>_.
     (\<lambda>e. case batch_loop C (Path output_base_dir) download_supplementary filter_pattern
                 filter_column ([], e) gse_ids of
             (results, e') \<Rightarrow>
               (Inr results,
                e'\<lparr>env_log := env_log e' @
                  [(INFO, [Txt (CHR 0x0A # replicate 50 CHR ''='')]),
                   (INFO, [Txt ''Batch processing completed!'']),
                   (INFO, [Txt ''Successful: '', Num (successful results), Txt ''/'',
                           Num (length gse_ids)]),
                   (INFO, [Txt ''Failed: '', Num (failed results), Txt ''/'',
                           Num (length gse_ids)]),
                   (INFO, [Txt ''Results saved in: '', Txt output_base_dir]),
                   (INFO, [Txt (replicate 50 CHR ''='')])]\<rparr>))))"

subsection \<open>What happened to each dataset\<close>

text \<open>
  The entries of a batch run, one for each requested id in order, each computed in the
  environment the turns before it left. The loop above does not use them; the theorems
  compare its result with them.
\<close>

fun attempts ::
  "'w services \<Rightarrow> path \<Rightarrow> bool \<Rightarrow> string option \<Rightarrow> string \<Rightarrow> 'w env \<Rightarrow> string list
     \<Rightarrow> (string \<times> batch_result) list" where
  "attempts C base_path download_supplementary filter_pattern filter_column e [] = []"
| "attempts C base_path download_supplementary filter_pattern filter_column e (gse_id # rest) =
     (gse_id,
      fst (attempt C base_path download_supplementary filter_pattern filter_column e gse_id)) #
     attempts C base_path download_supplementary filter_pattern filter_column
       (snd (attempt C base_path download_supplementary filter_pattern filter_column e gse_id))
       rest"

subsection \<open>The filter as the specification words it\<close>

text \<open>
  A row matches when its value in the column is present and the pattern, as a regular
  expression, matches somewhere in it, without regard to case unless the filter is case
  sensitive.
\<close>

definition row_matches :: "'w services \<Rightarrow> string \<Rightarrow> string \<Rightarrow> bool \<Rightarrow> string \<times> row \<Rightarrow> bool" where
  "row_matches C col pattern case_sensitive ir =
     (case map_of (snd ir) col of
        Some (Some s) \<Rightarrow> re_search C (\<not> case_sensitive) pattern s
      | _ \<Rightarrow> False)"

section \<open>Concrete collaborators and tables\<close>

text \<open>
  A store that is the list of the paths it holds; copying adds the destination, and fails
  (leaving the store as it was) on the sources listed in \<open>bad\<close>.
\<close>

definition list_storage :: "path list \<Rightarrow> path list storage" where
  "list_storage bad =
     \<lparr>path_exists = (\<lambda>fs p. p \<in> set fs),
      copy2 = (\<lambda>fs src dst.
        if src \<in> set bad then (Some ''Permission denied'', fs) else (None, fs @ [dst])),
      mkdir = (\<lambda>fs d. (None, fs))\<rparr>"

text \<open>The two rows of the specification's scenario; the identifier of GSM2 is blank.\<close>

definition gsm1_row :: row where
  "gsm1_row =
     [(''geo_accession'', Some ''GSM1''), (''title'', Some ''H3K4me3 ChIP''),
      (''source_name_ch1'', Some ''liver tissue''),
      (''supplementary_file_1'', Some ''http://x/a.txt.gz'')]"

definition gsm2_row :: row where
  "gsm2_row =
     [(''geo_accession'', Some ''GSM2''), (''title'', Some ''Input control''),
      (''source_name_ch1'', Some []),
      (''supplementary_file_1'', Some ''http://x/b.txt.gz'')]"

definition scenario_table :: dataframe where
  "scenario_table =
     \<lparr>columns = [''geo_accession'', ''title'', ''source_name_ch1'', ''supplementary_file_1''],
      rows = [(''GSM1'', gsm1_row), (''GSM2'', gsm2_row)]\<rparr>"

text \<open>GSM2 with a missing identifier instead of a blank one.\<close>

definition gsm2_missing_row :: row where
  "gsm2_missing_row =
     [(''geo_accession'', Some ''GSM2''), (''title'', Some ''Input control''),
      (''source_name_ch1'', None),
      (''supplementary_file_1'', Some ''http://x/b.txt.gz'')]"

text \<open>An identifier with two spaces in a row and a tab.\<close>

definition spaced_row :: row where
  "spaced_row =
     [(''geo_accession'', Some ''GSM4''),
      (''source_name_ch1'', Some (''liver  tissue'' @ [CHR 0x09] @ ''a/b'')),
      (''supplementary_file_1'', Some ''http://x/d.txt.gz'')]"

text \<open>A row whose supplementary file columns are all missing.\<close>

definition unreferenced_row :: row where
  "unreferenced_row =
     [(''geo_accession'', Some ''GSM3''), (''title'', Some ''No file''),
      (''source_name_ch1'', Some ''kidney''), (''supplementary_file_1'', None)]"




text \<open>
  A row with three supplementary file columns: the first is missing, the second and the
  third are present.
\<close>

definition second_file_row :: row where
  "second_file_row =
     [(''geo_accession'', Some ''GSM10''), (''supplementary_file_1'', None),
      (''supplementary_file_2'', Some ''http://x/b.txt.gz''),
      (''supplementary_file_3'', Some ''http://x/a.txt.gz'')]"

text \<open>A column with repeated values, a tie and a missing value.\<close>

definition tissue_table :: dataframe where
  "tissue_table =
     \<lparr>columns = [''geo_accession'', ''tissue''],
      rows =
        [(''GSM1'', [(''geo_accession'', Some ''GSM1''), (''tissue'', Some ''liver'')]),
         (''GSM2'', [(''geo_accession'', Some ''GSM2''), (''tissue'', None)]),
         (''GSM3'', [(''geo_accession'', Some ''GSM3''), (''tissue'', Some ''brain'')]),
         (''GSM4'', [(''geo_accession'', Some ''GSM4''), (''tissue'', Some ''brain'')]),
         (''GSM5'', [(''geo_accession'', Some ''GSM5''), (''tissue'', Some ''liver'')]),
         (''GSM6'', [(''geo_accession'', Some ''GSM6''), (''tissue'', Some ''kidney'')])]\<rparr>"

text \<open>
  Collaborators for running the batch: the world counts the calls of \<open>get_GEO\<close>;
  fetching an id listed in \<open>unreachable\<close> raises as long as fewer than
  \<open>down_until\<close> calls were made; every id fetched has the scenario's table; and
  the regular-expression engine knows literal patterns only.
\<close>

definition ascii_lower :: "char \<Rightarrow> char" where
  "ascii_lower c =
     (let n = (of_char c :: nat) in if 65 \<le> n \<and> n \<le> 90 then char_of (n + 32) else c)"

definition demo_gse :: "string \<Rightarrow> gse" where
  "demo_gse gse_id =
     \<lparr>gse_name = gse_id, gse_metadata = [(''title'', [''Demo series''])], gpls = [],
      phenotype_data = scenario_table, supplementary_files = []\<rparr>"

definition demo_services :: "string list \<Rightarrow> nat \<Rightarrow> nat services" where
  "demo_services unreachable down_until =
     \<lparr>make_dirs = (\<lambda>w p. (None, w)),
      get_GEO = (\<lambda>w gse_id destdir.
        if gse_id \<in> set unreachable \<and> w < down_until then (Inl ''NetworkError'', Suc w)
        else (Inr (demo_gse gse_id), Suc w)),
      download_from_url = (\<lambda>w url p. (None, w)),
      to_csv = (\<lambda>w df p. (None, w)),
      json_dump = (\<lambda>w s p. (None, w)),
      re_error = (\<lambda>pattern. None),
      re_search = (\<lambda>ignore_case pattern s.
        if ignore_case then str_in (map ascii_lower pattern) (map ascii_lower s)
        else str_in pattern s)\<rparr>"

section \<open>Properties of the correlation\<close>

lemma getitem_Inr: "getitem r l = Inr v \<longleftrightarrow> map_of r l = Some v"
  by (simp add: getitem_def split: option.splits)

lemma last_segment_a: "last_segment ''http://x/a.txt.gz'' = ''a.txt.gz''"
  by (simp add: last_segment_def)

lemma last_segment_b: "last_segment ''http://x/b.txt.gz'' = ''b.txt.gz''"
  by (simp add: last_segment_def)

text \<open>
  Claim C1, as amended. For every row with distinct labels in which the identifier column
  is not a label, or holds the missing value, the identifier is the value under
  \<open>geo_accession\<close>; when
  the row's file is in the source directory and the copy succeeds, the entry recorded for
  the file is that value, a hyphen and the original file name. (A blank identifier is not
  missing: see the counterexample.)
\<close>

theorem identifier_falls_back_to_geo_accession:
  assumes labels: "distinct (map fst r)"
    and absent: "map_of r identifier_column = None \<or> map_of r identifier_column = Some None"
    and key: "map_of r ''geo_accession'' = Some geo_accession"
    and url: "find_supp_url r = Some url" "url \<noteq> []"
    and src: "path_exists S (store st) (Join (Path source_dir) (last_segment url))"
    and copy: "copy2 S (store st) (Join (Path source_dir) (last_segment url))
                 (Join (Path output_dir) (py_str geo_accession @ ''-'' @ last_segment url)) =
               (None, fs')"
  shows "get_identifier r identifier_column geo_accession = geo_accession \<and>
         renamed_files (rename_step S source_dir output_dir identifier_column st (index, r)) =
           AList.update (last_segment url) (py_str geo_accession @ ''-'' @ last_segment url)
             (renamed_files st)"
proof -
  have ident: "get_identifier r identifier_column geo_accession = geo_accession"
    using absent by (auto simp: get_identifier_def getitem_def notna_def)
  have "getitem r ''geo_accession'' = Inr geo_accession"
    using key by (simp add: getitem_Inr)
  then have "renamed_files (rename_step S source_dir output_dir identifier_column st (index, r)) =
           AList.update (last_segment url) (py_str geo_accession @ ''-'' @ last_segment url)
             (renamed_files st)"
    using url src copy ident
    by (simp add: rename_step_def rename_row_def new_filename_def Let_def)
  with ident show ?thesis by simp
qed

text \<open>GSM2 with a missing identifier and the local file \<open>b.txt.gz\<close>.\<close>

theorem identifier_falls_back_to_geo_accession_witness:
  "distinct (map fst gsm2_missing_row) \<and>
   map_of gsm2_missing_row ''source_name_ch1'' = Some None \<and>
   get_identifier gsm2_missing_row ''source_name_ch1'' (Some ''GSM2'') = Some ''GSM2'' \<and>
   renamed_files
     (rename_step (list_storage []) ''src'' ''out'' ''source_name_ch1''
        \<lparr>renamed_files = [], logged = [], store = [Join (Path ''src'') ''b.txt.gz'']\<rparr>
        (''GSM2'', gsm2_missing_row)) =
   [(''b.txt.gz'', ''GSM2-b.txt.gz'')]"
proof -
  let ?st = "\<lparr>renamed_files = [], logged = [],
              store = [Join (Path ''src'') ''b.txt.gz'']\<rparr> :: path list rename_state"
  have labels: "distinct (map fst gsm2_missing_row)"
    by (simp add: gsm2_missing_row_def)
  have absent: "map_of gsm2_missing_row ''source_name_ch1'' = None \<or>
                map_of gsm2_missing_row ''source_name_ch1'' = Some None"
    by (simp add: gsm2_missing_row_def)
  have key: "map_of gsm2_missing_row ''geo_accession'' = Some (Some ''GSM2'')"
    by (simp add: gsm2_missing_row_def)
  have url: "find_supp_url gsm2_missing_row = Some ''http://x/b.txt.gz''"
    by (simp add: gsm2_missing_row_def notna_def)
  have nonempty: "''http://x/b.txt.gz'' \<noteq> []"
    by simp
  have src: "path_exists (list_storage []) (store ?st)
               (Join (Path ''src'') (last_segment ''http://x/b.txt.gz''))"
    by (simp add: list_storage_def last_segment_b)
  have copy: "copy2 (list_storage []) (store ?st)
                (Join (Path ''src'') (last_segment ''http://x/b.txt.gz''))
                (Join (Path ''out'')
                   (py_str (Some ''GSM2'') @ ''-'' @ last_segment ''http://x/b.txt.gz'')) =
              (None, [Join (Path ''src'') ''b.txt.gz'', Join (Path ''out'') ''GSM2-b.txt.gz''])"
    by (simp add: list_storage_def last_segment_b)
  from identifier_falls_back_to_geo_accession
         [OF labels absent key url nonempty src copy, where index = "''GSM2''"]
  show ?thesis
    by (simp add: last_segment_b) (simp add: gsm2_missing_row_def)
qed

text \<open>
  The claim as stated fails on the specification's own scenario: the blank identifier of
  GSM2 is a value, the identifier is the empty string, and the file \<open>b.txt.gz\<close> is
  recorded as \<open>-b.txt.gz\<close>, not as \<open>GSM2-b.txt.gz\<close>.
\<close>

theorem blank_identifier_counterexample:
  "get_identifier gsm2_row ''source_name_ch1'' (Some ''GSM2'') = Some [] \<and>
   rename_supplementary_files (list_storage [])
     [Join (Path ''src'') ''a.txt.gz'', Join (Path ''src'') ''b.txt.gz'']
     scenario_table ''src'' ''out'' ''source_name_ch1'' =
   Inr \<lparr>renamed_files =
          [(''a.txt.gz'', ''liver_tissue-a.txt.gz''), (''b.txt.gz'', ''-b.txt.gz'')],
        logged =
          [(INFO, [Txt ''Renaming supplementary files based on metadata...'']),
           (INFO, [Txt ''Renamed: '', Txt ''a.txt.gz'', Txt '' -> '',
                   Txt ''liver_tissue-a.txt.gz'']),
           (INFO, [Txt ''Renamed: '', Txt ''b.txt.gz'', Txt '' -> '', Txt ''-b.txt.gz'']),
           (INFO, [Txt ''Renamed '', Num 2, Txt '' files''])],
        store =
          [Join (Path ''src'') ''a.txt.gz'', Join (Path ''src'') ''b.txt.gz'',
           Join (Path ''out'') ''liver_tissue-a.txt.gz'', Join (Path ''out'') ''-b.txt.gz'']\<rparr>"
  by (simp add: rename_supplementary_files_def rename_step_def rename_row_def
      get_identifier_def getitem_def notna_def new_filename_def replace_char_def
      list_storage_def scenario_table_def gsm1_row_def gsm2_row_def
      last_segment_a last_segment_b Let_def)

lemma replace_space_then_slash:
  "replace_char CHR ''/'' CHR ''_'' (replace_char CHR '' '' CHR ''_'' s) =
   map (\<lambda>c. if c = CHR '' '' \<or> c = CHR ''/'' then CHR ''_'' else c) s"
  by (induction s) (simp_all add: replace_char_def)

text \<open>
  Claim C2, as amended. For every row with distinct labels whose identifier column holds
  a value, the identifier is that value with each space character and each slash replaced
  by an underscore of its own, every other character, other whitespace included, being
  kept; and it is the identifier the loop uses: when the row's file is in the source
  directory and the copy succeeds, the entry recorded for the file is this identifier, a
  hyphen and the original file name.
\<close>

theorem identifier_replaces_each_space_and_slash:
  assumes labels: "distinct (map fst r)"
    and present: "map_of r identifier_column = Some (Some v)"
    and sanitized: "identifier = map (\<lambda>c. if c = CHR '' '' \<or> c = CHR ''/'' then CHR ''_'' else c) v"
  shows "get_identifier r identifier_column geo_accession = Some identifier \<and>
         (map_of r ''geo_accession'' = Some geo_accession \<and>
          find_supp_url r = Some url \<and> url \<noteq> [] \<and>
          path_exists S (store st) (Join (Path source_dir) (last_segment url)) \<and>
          copy2 S (store st) (Join (Path source_dir) (last_segment url))
            (Join (Path output_dir) (identifier @ ''-'' @ last_segment url)) = (None, fs') \<longrightarrow>
          renamed_files (rename_step S source_dir output_dir identifier_column st (index, r)) =
            AList.update (last_segment url) (identifier @ ''-'' @ last_segment url)
              (renamed_files st))"
proof -
  have ident: "get_identifier r identifier_column geo_accession = Some identifier"
    using present
    by (simp add: get_identifier_def getitem_def notna_def replace_space_then_slash sanitized)
  have "renamed_files (rename_step S source_dir output_dir identifier_column st (index, r)) =
          AList.update (last_segment url) (identifier @ ''-'' @ last_segment url)
            (renamed_files st)"
    if key: "map_of r ''geo_accession'' = Some geo_accession"
      and url: "find_supp_url r = Some url" "url \<noteq> []"
      and src: "path_exists S (store st) (Join (Path source_dir) (last_segment url))"
      and copy: "copy2 S (store st) (Join (Path source_dir) (last_segment url))
                   (Join (Path output_dir) (identifier @ ''-'' @ last_segment url)) = (None, fs')"
  proof -
    have "getitem r ''geo_accession'' = Inr geo_accession"
      using key by (simp add: getitem_Inr)
    then show ?thesis
      using url src copy ident
      by (simp add: rename_step_def rename_row_def new_filename_def Let_def)
  qed
  with ident show ?thesis by blast
qed

text \<open>GSM1 of the specification's scenario, with the local file \<open>a.txt.gz\<close>.\<close>

theorem identifier_replaces_each_space_and_slash_witness:
  "distinct (map fst gsm1_row) \<and>
   map_of gsm1_row ''source_name_ch1'' = Some (Some ''liver tissue'') \<and>
   get_identifier gsm1_row ''source_name_ch1'' (Some ''GSM1'') = Some ''liver_tissue'' \<and>
   renamed_files
     (rename_step (list_storage []) ''src'' ''out'' ''source_name_ch1''
        \<lparr>renamed_files = [], logged = [], store = [Join (Path ''src'') ''a.txt.gz'']\<rparr>
        (''GSM1'', gsm1_row)) =
   [(''a.txt.gz'', ''liver_tissue-a.txt.gz'')]"
proof -
  let ?st = "\<lparr>renamed_files = [], logged = [],
              store = [Join (Path ''src'') ''a.txt.gz'']\<rparr> :: path list rename_state"
  have labels: "distinct (map fst gsm1_row)"
    by (simp add: gsm1_row_def)
  have present: "map_of gsm1_row ''source_name_ch1'' = Some (Some ''liver tissue'')"
    by (simp add: gsm1_row_def)
  have sanitized: "''liver_tissue'' =
      map (\<lambda>c. if c = CHR '' '' \<or> c = CHR ''/'' then CHR ''_'' else c) ''liver tissue''"
    by simp
  have key: "map_of gsm1_row ''geo_accession'' = Some (Some ''GSM1'')"
    by (simp add: gsm1_row_def)
  have url: "find_supp_url gsm1_row = Some ''http://x/a.txt.gz''"
    by (simp add: gsm1_row_def notna_def)
  have nonempty: "''http://x/a.txt.gz'' \<noteq> []"
    by simp
  have src: "path_exists (list_storage []) (store ?st)
               (Join (Path ''src'') (last_segment ''http://x/a.txt.gz''))"
    by (simp add: list_storage_def last_segment_a)
  have copy: "copy2 (list_storage []) (store ?st)
                (Join (Path ''src'') (last_segment ''http://x/a.txt.gz''))
                (Join (Path ''out'') (''liver_tissue'' @ ''-'' @ last_segment ''http://x/a.txt.gz'')) =
              (None, [Join (Path ''src'') ''a.txt.gz'',
                      Join (Path ''out'') ''liver_tissue-a.txt.gz''])"
    by (simp add: list_storage_def last_segment_a)
  from identifier_replaces_each_space_and_slash
         [OF labels present sanitized, where geo_accession = "Some ''GSM1''"
            and url = "''http://x/a.txt.gz''" and S = "list_storage []" and st = ?st
            and source_dir = "''src''" and output_dir = "''out''" and index = "''GSM1''"
            and fs' = "[Join (Path ''src'') ''a.txt.gz'',
                        Join (Path ''out'') ''liver_tissue-a.txt.gz'']"]
    key url nonempty src copy
  have "get_identifier gsm1_row ''source_name_ch1'' (Some ''GSM1'') = Some ''liver_tissue'' \<and>
        renamed_files
          (rename_step (list_storage []) ''src'' ''out'' ''source_name_ch1'' ?st
             (''GSM1'', gsm1_row)) =
        AList.update (last_segment ''http://x/a.txt.gz'')
          (''liver_tissue'' @ ''-'' @ last_segment ''http://x/a.txt.gz'') (renamed_files ?st)"
    by blast
  then show ?thesis
    using labels present by (simp add: last_segment_a)
qed

text \<open>
  The claim as stated fails on a value with two spaces in a row and a tab: the code gives
  two underscores for the two spaces and keeps the tab, where one underscore for each run
  of whitespace is \<open>liver_tissue_a_b\<close>.
\<close>

theorem whitespace_runs_counterexample:
  "get_identifier spaced_row ''source_name_ch1'' (Some ''GSM4'') =
     Some (''liver__tissue'' @ [CHR 0x09] @ ''a_b'') \<and>
   spec_sanitize (''liver  tissue'' @ [CHR 0x09] @ ''a/b'') = ''liver_tissue_a_b'' \<and>
   get_identifier spaced_row ''source_name_ch1'' (Some ''GSM4'') \<noteq>
     Some (spec_sanitize (''liver  tissue'' @ [CHR 0x09] @ ''a/b''))"
  by (simp add: get_identifier_def getitem_def notna_def replace_char_def spaced_row_def
      spec_sanitize_def is_space_def is_path_separator_def)

text \<open>The legacy script on the same value: the slash is kept as well.\<close>

lemma legacy_source_name_replaces_spaces_only:
  "legacy_source_name spaced_row = Inr (''liver__tissue'' @ [CHR 0x09] @ ''a/b'')"
  by (simp add: legacy_source_name_def getitem_def replace_char_def spaced_row_def)

lemma find_supp_url_find:
  "find_supp_url r =
     (case find (\<lambda>lv. str_in ''supplementary_file'' (fst lv) \<and> snd lv \<noteq> None) r of
        None \<Rightarrow> None | Some lv \<Rightarrow> snd lv)"
  by (induction r rule: find_supp_url.induct) (auto simp add: notna_def)

text \<open>
  Claim C3, as amended. For every row with distinct labels that has a
  \<open>geo_accession\<close>, the supplementary file URL is the value of the first column, in
  the row's column order, whose name contains \<open>supplementary_file\<close> and whose value
  is not missing, and this is the URL the loop works with: when the file it names is not
  in the source directory, the warning names that file; when the file is there and the
  copy succeeds, the entry is recorded under that file's name. When there is no such
  column, the row is skipped: the turn of the loop leaves the state as it was, so no
  entry is recorded and nothing is raised. The same holds for a URL that is the empty
  string.
\<close>

theorem supplementary_url_is_first_match_else_silent_skip:
  assumes labels: "distinct (map fst r)"
    and key: "map_of r ''geo_accession'' = Some geo_accession"
    and first: "first = find (\<lambda>lv. str_in ''supplementary_file'' (fst lv) \<and> snd lv \<noteq> None) r"
  shows "find_supp_url r = (case first of None \<Rightarrow> None | Some lv \<Rightarrow> snd lv) \<and>
         (first = None \<longrightarrow>
            rename_step S source_dir output_dir identifier_column st (index, r) = st) \<and>
         (\<forall>col. first = Some (col, Some []) \<longrightarrow>
            rename_step S source_dir output_dir identifier_column st (index, r) = st) \<and>
         (\<forall>col url. first = Some (col, Some url) \<and> url \<noteq> [] \<and>
            \<not> path_exists S (store st) (Join (Path source_dir) (last_segment url)) \<longrightarrow>
            rename_step S source_dir output_dir identifier_column st (index, r) =
              st\<lparr>logged := logged st @
                [(WARNING, [Txt ''Original file not found: '', Txt (last_segment url)])]\<rparr>) \<and>
         (\<forall>col url fs'. first = Some (col, Some url) \<and> url \<noteq> [] \<and>
            path_exists S (store st) (Join (Path source_dir) (last_segment url)) \<and>
            copy2 S (store st) (Join (Path source_dir) (last_segment url))
              (Join (Path output_dir)
                 (new_filename (get_identifier r identifier_column geo_accession)
                    (last_segment url))) = (None, fs') \<longrightarrow>
            renamed_files (rename_step S source_dir output_dir identifier_column st (index, r)) =
              AList.update (last_segment url)
                (new_filename (get_identifier r identifier_column geo_accession)
                   (last_segment url)) (renamed_files st) \<and>
            store (rename_step S source_dir output_dir identifier_column st (index, r)) = fs')"
proof -
  have acc: "getitem r ''geo_accession'' = Inr geo_accession"
    using key by (simp add: getitem_Inr)
  have scan: "find_supp_url r = (case first of None \<Rightarrow> None | Some lv \<Rightarrow> snd lv)"
    by (simp add: first find_supp_url_find)
  have none: "rename_step S source_dir output_dir identifier_column st (index, r) = st"
    if "first = None"
    using that acc scan by (simp add: rename_step_def rename_row_def)
  have blank: "rename_step S source_dir output_dir identifier_column st (index, r) = st"
    if "first = Some (col, Some [])" for col
    using that acc scan by (simp add: rename_step_def rename_row_def)
  have gone: "rename_step S source_dir output_dir identifier_column st (index, r) =
                st\<lparr>logged := logged st @
                  [(WARNING, [Txt ''Original file not found: '', Txt (last_segment url)])]\<rparr>"
    if "first = Some (col, Some url)" "url \<noteq> []"
      "\<not> path_exists S (store st) (Join (Path source_dir) (last_segment url))"
    for col url
    using that acc scan by (simp add: rename_step_def rename_row_def Let_def)
  have copied: "renamed_files (rename_step S source_dir output_dir identifier_column st (index, r)) =
                  AList.update (last_segment url)
                    (new_filename (get_identifier r identifier_column geo_accession)
                       (last_segment url)) (renamed_files st) \<and>
                store (rename_step S source_dir output_dir identifier_column st (index, r)) = fs'"
    if "first = Some (col, Some url)" "url \<noteq> []"
      "path_exists S (store st) (Join (Path source_dir) (last_segment url))"
      "copy2 S (store st) (Join (Path source_dir) (last_segment url))
         (Join (Path output_dir)
            (new_filename (get_identifier r identifier_column geo_accession)
               (last_segment url))) = (None, fs')"
    for col url fs'
    using that acc scan by (simp add: rename_step_def rename_row_def Let_def)
  show ?thesis
    using scan none blank gone copied by blast
qed

text \<open>
  A row whose only supplementary file column is missing, and a row whose first
  supplementary file column is missing and whose second and third are present: the second
  is taken.
\<close>

theorem supplementary_url_is_first_match_else_silent_skip_witness:
  "distinct (map fst unreferenced_row) \<and>
   map_of unreferenced_row ''geo_accession'' = Some (Some ''GSM3'') \<and>
   find (\<lambda>lv. str_in ''supplementary_file'' (fst lv) \<and> snd lv \<noteq> None) unreferenced_row = None \<and>
   rename_step (list_storage []) ''src'' ''out'' ''source_name_ch1''
     \<lparr>renamed_files = [], logged = [], store = []\<rparr> (''GSM3'', unreferenced_row) =
   \<lparr>renamed_files = [], logged = [], store = []\<rparr> \<and>
   distinct (map fst second_file_row) \<and>
   map_of second_file_row ''geo_accession'' = Some (Some ''GSM10'') \<and>
   find (\<lambda>lv. str_in ''supplementary_file'' (fst lv) \<and> snd lv \<noteq> None) second_file_row =
     Some (''supplementary_file_2'', Some ''http://x/b.txt.gz'') \<and>
   find_supp_url second_file_row = Some ''http://x/b.txt.gz'' \<and>
   renamed_files
     (rename_step (list_storage []) ''src'' ''out'' ''source_name_ch1''
        \<lparr>renamed_files = [], logged = [],
         store = [Join (Path ''src'') ''a.txt.gz'', Join (Path ''src'') ''b.txt.gz'']\<rparr>
        (''GSM10'', second_file_row)) =
   [(''b.txt.gz'', ''GSM10-b.txt.gz'')]"
proof -
  let ?P = "\<lambda>lv :: string \<times> cell. str_in ''supplementary_file'' (fst lv) \<and> snd lv \<noteq> None"
  let ?st = "\<lparr>renamed_files = [], logged = [],
              store = [Join (Path ''src'') ''a.txt.gz'', Join (Path ''src'') ''b.txt.gz'']\<rparr>
             :: path list rename_state"
  have labels1: "distinct (map fst unreferenced_row)"
    by (simp add: unreferenced_row_def)
  have key1: "map_of unreferenced_row ''geo_accession'' = Some (Some ''GSM3'')"
    by (simp add: unreferenced_row_def)
  have none: "find ?P unreferenced_row = None"
    by (simp add: unreferenced_row_def)
  from supplementary_url_is_first_match_else_silent_skip
         [OF labels1 key1 none [symmetric], where S = "list_storage []"
            and source_dir = "''src''" and output_dir = "''out''"
            and identifier_column = "''source_name_ch1''"
            and st = "\<lparr>renamed_files = [], logged = [], store = []\<rparr>"
            and index = "''GSM3''"]
  have skipped: "rename_step (list_storage []) ''src'' ''out'' ''source_name_ch1''
                   \<lparr>renamed_files = [], logged = [], store = []\<rparr> (''GSM3'', unreferenced_row) =
                 \<lparr>renamed_files = [], logged = [], store = []\<rparr>"
    by blast
  have labels2: "distinct (map fst second_file_row)"
    by (simp add: second_file_row_def)
  have key2: "map_of second_file_row ''geo_accession'' = Some (Some ''GSM10'')"
    by (simp add: second_file_row_def)
  have second: "find ?P second_file_row = Some (''supplementary_file_2'', Some ''http://x/b.txt.gz'')"
    by (simp add: second_file_row_def)
  have ident: "get_identifier second_file_row ''source_name_ch1'' (Some ''GSM10'') = Some ''GSM10''"
    by (simp add: get_identifier_def getitem_def second_file_row_def)
  have nonempty: "''http://x/b.txt.gz'' \<noteq> []"
    by simp
  have src: "path_exists (list_storage []) (store ?st)
               (Join (Path ''src'') (last_segment ''http://x/b.txt.gz''))"
    by (simp add: list_storage_def last_segment_b)
  have copy: "copy2 (list_storage []) (store ?st)
                (Join (Path ''src'') (last_segment ''http://x/b.txt.gz''))
                (Join (Path ''out'')
                   (new_filename (get_identifier second_file_row ''source_name_ch1'' (Some ''GSM10''))
                      (last_segment ''http://x/b.txt.gz''))) =
              (None, [Join (Path ''src'') ''a.txt.gz'', Join (Path ''src'') ''b.txt.gz'',
                      Join (Path ''out'') ''GSM10-b.txt.gz''])"
    by (simp add: list_storage_def last_segment_b ident new_filename_def)
  from supplementary_url_is_first_match_else_silent_skip
         [OF labels2 key2 second [symmetric], where S = "list_storage []"
            and source_dir = "''src''" and output_dir = "''out''"
            and identifier_column = "''source_name_ch1''" and st = ?st
            and index = "''GSM10''"]
    nonempty src copy
  have "find_supp_url second_file_row = Some ''http://x/b.txt.gz'' \<and>
        renamed_files
          (rename_step (list_storage []) ''src'' ''out'' ''source_name_ch1'' ?st
             (''GSM10'', second_file_row)) =
        AList.update (last_segment ''http://x/b.txt.gz'')
          (new_filename (get_identifier second_file_row ''source_name_ch1'' (Some ''GSM10''))
             (last_segment ''http://x/b.txt.gz'')) (renamed_files ?st)"
    by simp
  then have taken: "find_supp_url second_file_row = Some ''http://x/b.txt.gz'' \<and>
        renamed_files
          (rename_step (list_storage []) ''src'' ''out'' ''source_name_ch1'' ?st
             (''GSM10'', second_file_row)) = [(''b.txt.gz'', ''GSM10-b.txt.gz'')]"
    by (simp add: last_segment_b ident new_filename_def)
  show ?thesis
    using labels1 key1 none skipped labels2 key2 second taken by (intro conjI) simp_all
qed

text \<open>
  The claim as stated fails on a row without a file reference: the turn of the loop for
  it adds no record to the log, and the log of the whole run holds the opening and the
  closing line only.
\<close>

theorem skip_is_not_logged_counterexample:
  "logged (rename_step (list_storage []) ''src'' ''out'' ''source_name_ch1''
             \<lparr>renamed_files = [], logged = [], store = []\<rparr> (''GSM3'', unreferenced_row)) = [] \<and>
   rename_supplementary_files (list_storage []) []
     \<lparr>columns = [''geo_accession'', ''title'', ''source_name_ch1'', ''supplementary_file_1''],
      rows = [(''GSM3'', unreferenced_row)]\<rparr> ''src'' ''out'' ''source_name_ch1'' =
   Inr \<lparr>renamed_files = [],
        logged =
          [(INFO, [Txt ''Renaming supplementary files based on metadata...'']),
           (INFO, [Txt ''Renamed '', Num 0, Txt '' files''])],
        store = []\<rparr>"
  by (simp add: rename_supplementary_files_def rename_step_def rename_row_def
      getitem_def notna_def list_storage_def unreferenced_row_def)








section \<open>Properties of the table operations\<close>

lemmas act_defs = and_then_def succeed_def raise_def try_except_def say_def call_def

lemma select_by_own_flags: "map fst (filter snd (zip xs (map f xs))) = filter f xs"
  by (induction xs) simp_all

lemma flags_are_row_matches:
  "map (\<lambda>v. case v of None \<Rightarrow> False | Some s \<Rightarrow> re_search C (\<not> case_sensitive) pattern s)
     (column_values df col) =
   map (row_matches C col pattern case_sensitive) (rows df)"
  by (simp add: column_values_def row_matches_def split: option.splits)

text \<open>
  Claim C6. For a well-formed table, when the filter column is a column of the table and
  the pattern compiles, filtering returns the table with exactly the rows that match, in their original order:
  the rows whose value in the column is present and in which the regular-expression
  engine, asked to ignore case unless the filter is case sensitive, finds the pattern. A
  row whose value is missing does not match, and nothing is raised, also when no row
  matches: the result is then the table without rows.
\<close>

theorem filter_returns_exactly_the_matching_rows:
  assumes wf: "wf_dataframe df"
    and col: "filter_column \<in> set (columns df)"
    and pat: "re_error C pattern = None"
  shows "\<exists>e'. filter_samples_by_criteria C df filter_column pattern case_sensitive e =
              (Inr (df\<lparr>rows := filter (row_matches C filter_column pattern case_sensitive)
                                   (rows df)\<rparr>), e') \<and>
              world e' = world e \<and>
              (\<forall>ir. map_of (snd ir) filter_column = Some None \<longrightarrow>
                 \<not> row_matches C filter_column pattern case_sensitive ir) \<and>
              (\<forall>ir. map_of (snd ir) filter_column = None \<longrightarrow>
                 \<not> row_matches C filter_column pattern case_sensitive ir)"
proof -
  have keep: "str_contains C (column_values df filter_column) pattern case_sensitive =
              succeed (map (row_matches C filter_column pattern case_sensitive) (rows df))"
    using pat by (simp add: str_contains_def flags_are_row_matches)
  have "\<exists>e'. filter_samples_by_criteria C df filter_column pattern case_sensitive e =
              (Inr (df\<lparr>rows := filter (row_matches C filter_column pattern case_sensitive)
                                   (rows df)\<rparr>), e') \<and>
              world e' = world e"
    using col
    by (simp add: filter_samples_by_criteria_def keep boolean_index_def act_defs Let_def
        select_by_own_flags)
  then show ?thesis
    by (auto simp add: row_matches_def)
qed

text \<open>The specification's scenario: the pattern \<open>h3k\<close>, ignoring case, on \<open>title\<close>.\<close>

theorem filter_returns_exactly_the_matching_rows_witness:
  "wf_dataframe scenario_table \<and>
   ''title'' \<in> set (columns scenario_table) \<and>
   re_error (demo_services [] 0) ''h3k'' = None \<and>
   fst (filter_samples_by_criteria (demo_services [] 0) scenario_table ''title'' ''h3k'' False
          \<lparr>env_log = [], world = 0\<rparr>) =
   Inr (scenario_table\<lparr>rows := [(''GSM1'', gsm1_row)]\<rparr>)"
proof -
  have wf: "wf_dataframe scenario_table"
    by (simp add: wf_dataframe_def scenario_table_def gsm1_row_def gsm2_row_def)
  have col: "''title'' \<in> set (columns scenario_table)"
    by (simp add: scenario_table_def)
  have pat: "re_error (demo_services [] 0) ''h3k'' = None"
    by (simp add: demo_services_def)
  have rs: "filter (row_matches (demo_services [] 0) ''title'' ''h3k'' False)
              (rows scenario_table) = [(''GSM1'', gsm1_row)]"
    by code_simp
  from filter_returns_exactly_the_matching_rows
         [OF wf col pat, where case_sensitive = False and e = "\<lparr>env_log = [], world = 0\<rparr>"]
  obtain e' where
    "filter_samples_by_criteria (demo_services [] 0) scenario_table ''title'' ''h3k'' False
       \<lparr>env_log = [], world = 0\<rparr> =
     (Inr (scenario_table\<lparr>rows := filter (row_matches (demo_services [] 0) ''title'' ''h3k'' False)
                                      (rows scenario_table)\<rparr>), e')"
    by blast
  then show ?thesis
    using wf col pat by (simp add: rs)
qed

lemma map_of_one_label:
  "map_of (filter (\<lambda>lv. fst lv = c') r) c = (if c = c' then map_of r c else None)"
  by (induction r) auto

lemma map_of_project_row:
  "map_of (project_row cols r) c = (if c \<in> set cols then map_of r c else None)"
proof (induction cols)
  case Nil
  show ?case by (simp add: project_row_def)
next
  case (Cons c' cols)
  have split: "project_row (c' # cols) r = filter (\<lambda>lv. fst lv = c') r @ project_row cols r"
    by (simp add: project_row_def)
  show ?case
    using Cons.IH
    by (cases "map_of r c") (auto simp add: split map_add_def map_of_one_label)
qed

lemma one_label_of_distinct:
  "distinct xs \<Longrightarrow> c \<in> set xs \<Longrightarrow> filter (\<lambda>l. l = c) xs = [c]"
  by (induction xs) (auto simp add: filter_id_conv filter_empty_conv)

lemma columns_of_projection:
  assumes "distinct xs" and "set cols \<subseteq> set xs"
  shows "concat (map (\<lambda>c. filter (\<lambda>l. l = c) xs) cols) = cols"
  using assms(2) by (induction cols) (simp_all add: one_label_of_distinct [OF assms(1)])

lemma labels_of_project_row:
  "map fst (project_row cols r) = concat (map (\<lambda>c. filter (\<lambda>l. l = c) (map fst r)) cols)"
  by (simp add: project_row_def map_concat filter_map comp_def)

text \<open>
  Claim C7. For a well-formed table and a requested list with a column in it, column
  selection raises nothing (no output file being asked for). With \<open>found\<close> the
  requested columns that exist, in requested order, and \<open>missing\<close> the others: when
  \<open>found\<close> is not empty the result is the projection onto \<open>found\<close>, with the same
  rows in the same order and, in each row, the values the row had under these columns;
  when \<open>found\<close> is empty the result is the table itself, and the log says that none of
  the columns was found. Whenever a column is missing, the log lists the missing columns.
\<close>

theorem selection_projects_onto_found_columns:
  assumes wf: "wf_dataframe (phenotype_data g)"
    and requested: "selected \<noteq> []"
    and found: "found = filter (\<lambda>c. c \<in> set (columns (phenotype_data g))) selected"
    and missing: "missing = filter (\<lambda>c. c \<notin> set (columns (phenotype_data g))) selected"
  shows "\<exists>t e'. extract_metadata C g (Some selected) None e = (Inr t, e') \<and>
           world e' = world e \<and>
           (found \<noteq> [] \<longrightarrow>
              t = project (phenotype_data g) found \<and> columns t = found \<and>
              map fst (rows t) = map fst (rows (phenotype_data g)) \<and>
              list_all2 (\<lambda>ir' ir. map fst (snd ir') = found \<and>
                           (\<forall>c \<in> set found. map_of (snd ir') c = map_of (snd ir) c))
                (rows t) (rows (phenotype_data g))) \<and>
           (found = [] \<longrightarrow> t = phenotype_data g) \<and>
           env_log e' = env_log e @
             [(INFO, [Txt ''Extracting metadata...'']),
              (INFO, [Txt ''Total metadata columns: '',
                      Num (length (columns (phenotype_data g)))]),
              (INFO, [Txt ''Available columns: '', StrList (columns (phenotype_data g))])] @
             (if found \<noteq> []
              then [(INFO, [Txt ''Selected '', Num (length found),
                            Txt '' columns from metadata: '', StrList found])]
              else [(WARNING, [Txt ''None of the specified columns found in metadata''])]) @
             (if missing \<noteq> [] then [(WARNING, [Txt ''Missing columns: '', StrList missing])]
              else [])"
proof -
  let ?df = "phenotype_data g"
  have dist: "distinct (columns ?df)"
    using wf by (simp add: wf_dataframe_def)
  have sub: "set found \<subseteq> set (columns ?df)"
    using found by auto
  have cols: "columns (project ?df found) = found"
    by (simp add: project_def columns_of_projection [OF dist sub])
  have keys: "map fst (rows (project ?df found)) = map fst (rows ?df)"
    by (simp add: project_def comp_def)
  have each: "list_all2 (\<lambda>ir' ir. map fst (snd ir') = found \<and>
                 (\<forall>c \<in> set found. map_of (snd ir') c = map_of (snd ir) c))
               (rows (project ?df found)) (rows ?df)"
  proof -
    have "map fst (project_row found (snd ir)) = found" if "ir \<in> set (rows ?df)" for ir
    proof -
      have "map fst (snd ir) = columns ?df"
        using wf that by (auto simp add: wf_dataframe_def list_all_iff)
      then show ?thesis
        by (simp add: labels_of_project_row columns_of_projection [OF dist sub])
    qed
    then show ?thesis
      by (simp add: project_def list_all2_map1 list_all2_same map_of_project_row)
  qed
  show ?thesis
    using requested cols keys each
    by (simp add: extract_metadata_def select_columns_def save_table_def act_defs Let_def
        found [symmetric] missing [symmetric])
qed

text \<open>The specification's scenario: one requested column, which does not exist.\<close>

theorem selection_projects_onto_found_columns_witness:
  "wf_dataframe (phenotype_data (demo_gse ''A'')) \<and>
   filter (\<lambda>c. c \<in> set (columns (phenotype_data (demo_gse ''A'')))) [''nonexistent''] = [] \<and>
   filter (\<lambda>c. c \<notin> set (columns (phenotype_data (demo_gse ''A'')))) [''nonexistent''] =
     [''nonexistent''] \<and>
   extract_metadata (demo_services [] 0) (demo_gse ''A'') (Some [''nonexistent'']) None
     \<lparr>env_log = [], world = 0\<rparr> =
   (Inr scenario_table,
    \<lparr>env_log =
       [(INFO, [Txt ''Extracting metadata...'']),
        (INFO, [Txt ''Total metadata columns: '', Num 4]),
        (INFO, [Txt ''Available columns: '',
                StrList [''geo_accession'', ''title'', ''source_name_ch1'',
                         ''supplementary_file_1'']]),
        (WARNING, [Txt ''None of the specified columns found in metadata'']),
        (WARNING, [Txt ''Missing columns: '', StrList [''nonexistent'']])],
     world = 0\<rparr>)"
proof -
  let ?g = "demo_gse ''A''"
  have df: "phenotype_data ?g = scenario_table"
    by (simp add: demo_gse_def)
  have cs: "columns scenario_table =
              [''geo_accession'', ''title'', ''source_name_ch1'', ''supplementary_file_1'']"
    by (simp add: scenario_table_def)
  have wf: "wf_dataframe (phenotype_data ?g)"
    by (simp add: df wf_dataframe_def scenario_table_def gsm1_row_def gsm2_row_def)
  have requested: "[''nonexistent''] \<noteq> []"
    by simp
  have found: "[] = filter (\<lambda>c. c \<in> set (columns (phenotype_data ?g))) [''nonexistent'']"
    by (simp add: df cs)
  have missing: "[''nonexistent''] =
                 filter (\<lambda>c. c \<notin> set (columns (phenotype_data ?g))) [''nonexistent'']"
    by (simp add: df cs)
  from selection_projects_onto_found_columns
         [OF wf requested found missing, where C = "demo_services [] 0"
            and e = "\<lparr>env_log = [], world = 0\<rparr>"]
  obtain t e' where
    run: "extract_metadata (demo_services [] 0) ?g (Some [''nonexistent'']) None
            \<lparr>env_log = [], world = 0\<rparr> = (Inr t, e')"
    and w: "world e' = 0"
    and t: "t = phenotype_data ?g"
    and l: "env_log e' =
       [(INFO, [Txt ''Extracting metadata...'']),
        (INFO, [Txt ''Total metadata columns: '', Num (length (columns (phenotype_data ?g)))]),
        (INFO, [Txt ''Available columns: '', StrList (columns (phenotype_data ?g))]),
        (WARNING, [Txt ''None of the specified columns found in metadata'']),
        (WARNING, [Txt ''Missing columns: '', StrList [''nonexistent'']])]"
    by auto
  have "e' = \<lparr>env_log = env_log e', world = world e'\<rparr>"
    by simp
  then show ?thesis
    using wf found [symmetric] missing [symmetric] run w t l by (simp add: df cs)
qed

text \<open>
  Claim C8. The two operations differ on a column that the table does not have: the
  error that filtering raises lists the available columns, the error that the value
  distribution raises names the column only.
\<close>

theorem missing_column_errors:
  "filter_samples_by_criteria C scenario_table ''tissue'' pattern case_sensitive e =
     (Inl (ValueError [Txt ''Column '', Txt (quoted ''tissue''),
             Txt '' not found in metadata. Available columns: '',
             StrList [''geo_accession'', ''title'', ''source_name_ch1'',
                      ''supplementary_file_1'']]), e) \<and>
   get_unique_values scenario_table ''tissue'' e =
     (Inl (ValueError [Txt ''Column '', Txt (quoted ''tissue''),
             Txt '' not found in metadata'']), e)"
  by (simp add: filter_samples_by_criteria_def get_unique_values_def scenario_table_def
      act_defs)

lemma length_present_values: "length (present_values vs) = length (filter (\<lambda>v. v \<noteq> None) vs)"
  by (induction vs rule: present_values.induct) simp_all

lemma set_present_values: "set (present_values vs) = {s. Some s \<in> set vs}"
  by (induction vs rule: present_values.induct) auto

lemma count_present_values: "count_list (present_values vs) s = count_list vs (Some s)"
  by (induction vs rule: present_values.induct) simp_all

lemma set_first_seen: "set (first_seen xs) = set xs"
  by (induction xs) auto

lemma distinct_first_seen: "distinct (first_seen xs)"
  by (induction xs) (simp_all add: set_first_seen)

lemma counts_add_up: "sum_list (map (count_list xs) (first_seen xs)) = length xs"
proof -
  have "sum_list (map (count_list xs) (first_seen xs)) = sum (count_list xs) (set (first_seen xs))"
    by (simp add: sum_list_distinct_conv_sum_set distinct_first_seen)
  also have "\<dots> = length xs"
    by (simp add: set_first_seen sum_count_set)
  finally show ?thesis .
qed

lemma sum_list_sort_key:
  "sum_list (map g (sort_key f xs)) = (sum_list (map g xs) :: nat)"
proof -
  have "sum_mset (mset (map g (sort_key f xs))) = sum_mset (mset (map g xs))"
    by simp
  then show ?thesis
    by (simp only: sum_mset_sum_list)
qed

lemma value_counts_sum:
  "sum_list (map snd (value_counts vs)) = length (filter (\<lambda>v. v \<noteq> None) vs)"
  by (simp add: value_counts_def sum_list_sort_key comp_def counts_add_up length_present_values)

lemma distinct_map_sort_key: "distinct (map g (sort_key f xs)) = distinct (map g xs)"
  by (simp add: distinct_map)

lemma value_counts_keys:
  "distinct (map fst (value_counts vs)) \<and> set (map fst (value_counts vs)) = {s. Some s \<in> set vs}"
proof -
  let ?es = "map (\<lambda>v. (v, count_list (present_values vs) v)) (first_seen (present_values vs))"
  have keys: "map fst ?es = first_seen (present_values vs)"
    by (simp add: comp_def)
  have "distinct (map fst (value_counts vs)) = distinct (map fst ?es)"
    by (simp only: value_counts_def distinct_map_sort_key)
  moreover have "set (map fst (value_counts vs)) = set (map fst ?es)"
    by (simp only: value_counts_def set_map set_sort)
  ultimately show ?thesis
    by (simp only: keys distinct_first_seen set_first_seen set_present_values)
qed

lemma value_counts_exact:
  assumes "vn \<in> set (value_counts vs)"
  shows "snd vn = count_list vs (Some (fst vn)) \<and> 0 < snd vn"
proof -
  from assms obtain s where s: "s \<in> set (present_values vs)"
      and vn: "vn = (s, count_list (present_values vs) s)"
    by (auto simp add: value_counts_def set_first_seen)
  from s have "count_list (present_values vs) s \<noteq> 0"
    by (simp add: count_list_0_iff)
  then show ?thesis
    by (simp add: vn count_present_values)
qed

lemma value_counts_descending: "sorted_wrt (\<lambda>a b. b \<le> a) (map snd (value_counts vs))"
proof -
  have "sorted (map (\<lambda>vn. - int (snd vn)) (value_counts vs))"
    by (simp add: value_counts_def)
  then show ?thesis
    by (simp add: sorted_wrt_map)
qed

lemma value_counts_ties:
  "map fst (filter (\<lambda>vn. snd vn = n) (value_counts vs)) =
   filter (\<lambda>s. count_list vs (Some s) = n) (first_seen (present_values vs))"
proof -
  let ?es = "map (\<lambda>v. (v, count_list (present_values vs) v)) (first_seen (present_values vs))"
  have "filter (\<lambda>vn. snd vn = n) (value_counts vs) =
        filter (\<lambda>vn. - int (snd vn) = - int n) (sort_key (\<lambda>vn. - int (snd vn)) ?es)"
    by (simp add: value_counts_def)
  also have "\<dots> = filter (\<lambda>vn. - int (snd vn) = - int n) ?es"
    by (rule sort_key_stable)
  finally show ?thesis
    by (simp add: filter_map comp_def count_present_values)
qed

text \<open>
  Claim C9. For an existing column of a well-formed table, the value distribution is returned without an error,
  and it is the count of the column's values as the specification words
  \<open>value_counts\<close> (the pandas operation behind it is not part of the source): the
  counts add up to the number of rows with a present value; the entries are the distinct
  present values, each with the exact number of its occurrences, so a missing value is no
  entry and adds to no count; the counts come in descending order; and the entries with
  one and the same count come in the order in which their values first occur in the
  column.
\<close>

theorem value_distribution_counts_present_values:
  assumes wf: "wf_dataframe df"
    and col: "column \<in> set (columns df)"
    and cells: "cells = column_values df column"
  shows "\<exists>vc e'. get_unique_values df column e = (Inr vc, e') \<and> world e' = world e \<and>
           vc = value_counts cells \<and>
           sum_list (map snd vc) = length (filter (\<lambda>v. v \<noteq> None) cells) \<and>
           distinct (map fst vc) \<and> set (map fst vc) = {s. Some s \<in> set cells} \<and>
           (\<forall>vn \<in> set vc. snd vn = count_list cells (Some (fst vn)) \<and> 0 < snd vn) \<and>
           sorted_wrt (\<lambda>a b. b \<le> a) (map snd vc) \<and>
           (\<forall>n. map fst (filter (\<lambda>vn. snd vn = n) vc) =
                  filter (\<lambda>s. count_list cells (Some s) = n) (first_seen (present_values cells)))"
proof -
  have run: "\<exists>e'. get_unique_values df column e = (Inr (value_counts cells), e') \<and>
                  world e' = world e"
    using col by (simp add: get_unique_values_def act_defs Let_def cells)
  show ?thesis
    using run value_counts_sum [of cells] value_counts_keys [of cells]
      value_counts_exact [of _ cells] value_counts_descending [of cells]
      value_counts_ties [of _ cells]
    by blast
qed

text \<open>Two values tie at two occurrences; one row has no value.\<close>

theorem value_distribution_counts_present_values_witness:
  "wf_dataframe tissue_table \<and>
   ''tissue'' \<in> set (columns tissue_table) \<and>
   column_values tissue_table ''tissue'' =
     [Some ''liver'', None, Some ''brain'', Some ''brain'', Some ''liver'', Some ''kidney''] \<and>
   fst (get_unique_values tissue_table ''tissue'' \<lparr>env_log = [], world = 0 :: nat\<rparr>) =
     Inr [(''liver'', 2), (''brain'', 2), (''kidney'', 1)] \<and>
   sum_list (map snd [(''liver'', 2 :: nat), (''brain'', 2), (''kidney'', 1)]) = 5"
proof -
  have wf: "wf_dataframe tissue_table"
    by (simp add: wf_dataframe_def tissue_table_def)
  have col: "''tissue'' \<in> set (columns tissue_table)"
    by (simp add: tissue_table_def)
  have cells: "[Some ''liver'', None, Some ''brain'', Some ''brain'', Some ''liver'', Some ''kidney''] =
               column_values tissue_table ''tissue''"
    by (simp add: tissue_table_def column_values_def)
  have vc: "value_counts [Some ''liver'', None, Some ''brain'', Some ''brain'', Some ''liver'',
                          Some ''kidney''] = [(''liver'', 2), (''brain'', 2), (''kidney'', 1)]"
    by code_simp
  from value_distribution_counts_present_values
         [OF wf col cells, where e = "\<lparr>env_log = [], world = 0 :: nat\<rparr>"]
  obtain e' where
    "get_unique_values tissue_table ''tissue'' \<lparr>env_log = [], world = 0 :: nat\<rparr> =
       (Inr (value_counts [Some ''liver'', None, Some ''brain'', Some ''brain'', Some ''liver'',
                           Some ''kidney'']), e')"
    by blast
  then show ?thesis
    using wf col cells [symmetric] by (simp add: vc)
qed

section \<open>Properties of the batch\<close>

lemma batch_step_parts:
  "fst (batch_step C b dl fp fc re i) = AList.update i (fst (attempt C b dl fp fc (snd re) i)) (fst re) \<and>
   snd (batch_step C b dl fp fc re i) = snd (attempt C b dl fp fc (snd re) i)"
  by (simp add: batch_step_def split: prod.splits)

lemma batch_loop_append:
  "batch_loop C b dl fp fc re (xs @ ys) = batch_loop C b dl fp fc (batch_loop C b dl fp fc re xs) ys"
  by (induction xs arbitrary: re) simp_all

lemma loop_follows_attempts:
  "fst (batch_loop C b dl fp fc re ids) =
     fold (\<lambda>ir. AList.update (fst ir) (snd ir)) (attempts C b dl fp fc (snd re) ids) (fst re)"
proof (induction ids arbitrary: re)
  case Nil
  show ?case by simp
next
  case (Cons i ids)
  show ?case
    using Cons.IH [of "batch_step C b dl fp fc re i"] by (simp add: batch_step_parts)
qed

lemma attempts_ids: "map fst (attempts C b dl fp fc e ids) = ids"
  by (induction ids arbitrary: e) simp_all

lemma attempts_keys: "fst ` set (attempts C b dl fp fc e ids) = set ids"
  using attempts_ids [of C b dl fp fc e ids] by (metis set_map)

lemma keys_fold_update:
  "fst ` set (fold (\<lambda>ir. AList.update (fst ir) (snd ir)) kvs acc) = fst ` set acc \<union> fst ` set kvs"
  by (induction kvs arbitrary: acc) (auto simp add: dom_update)

lemma distinct_fold_update:
  "distinct (map fst acc) \<Longrightarrow>
   distinct (map fst (fold (\<lambda>ir. AList.update (fst ir) (snd ir)) kvs acc))"
  by (induction kvs arbitrary: acc) (simp_all add: distinct_update)

lemma map_of_fold_update:
  "map_of (fold (\<lambda>ir. AList.update (fst ir) (snd ir)) kvs acc) i =
     (case map_of (rev kvs) i of Some r \<Rightarrow> Some r | None \<Rightarrow> map_of acc i)"
proof (induction kvs arbitrary: acc)
  case Nil
  show ?case by simp
next
  case (Cons kv kvs)
  show ?case
    using Cons.IH [of "AList.update (fst kv) (snd kv) acc"]
    by (auto simp add: update_conv' map_add_def split: option.splits)
qed

lemma tally: "successful rs + failed rs = length rs \<and>
              failed rs = length (filter (\<lambda>r. \<not> is_success r) (map snd rs))"
proof -
  have "length (filter is_success (map snd rs)) + length (filter (\<lambda>r. \<not> is_success r) (map snd rs)) =
        length (map snd rs)"
    by (rule sum_length_filter_compl)
  then show ?thesis
    by (simp add: successful_def failed_def)
qed

text \<open>
  Claim C5. For every list of dataset ids and every id in it, once the base directory is
  made: when the \<open>try\<close> body for that id raises an exception, whatever the exception
  and whatever happened to the ids before it, \<open>process_multiple_datasets\<close> still returns
  a result mapping. The turn stores a failure entry with the exception's text under the
  id and the loop goes on with the remaining ids from there: each of them gets the entry
  of its own turn, and the failure entry is still there at the end unless the id is
  requested again. The keys of the returned mapping are the requested ids, and the two
  counts the code logs are derived from the mapping: they add up to its size, and the
  failure count is the number of its failure entries.
\<close>

theorem failure_is_recorded_and_the_batch_goes_on:
  assumes made: "make_dirs C (world e) (Path output_base_dir) = (None, w)"
    and start: "e1 = e\<lparr>env_log := env_log e @
                   [(INFO, [Txt ''Processing '', Num (length gse_ids),
                            Txt '' datasets in batch...''])],
                 world := w\<rparr>"
    and ids: "gse_ids = before @ gse_id # rest"
    and before: "batch_loop C (Path output_base_dir) dl fp fc ([], e1) before = (results1, ea)"
    and raises: "process_dataset C (Path output_base_dir) dl fp fc gse_id (announce gse_id ea) =
                   (Inl x, e2)"
    and handled: "eb = e2\<lparr>env_log := env_log e2 @
                    [(ERROR, [Txt ''Error processing '', Txt gse_id, Txt '': ''] @ exn_str x)]\<rparr>"
  shows "\<exists>results e'.
           process_multiple_datasets C gse_ids output_base_dir dl fp fc e = (Inr results, e') \<and>
           results = fst (batch_loop C (Path output_base_dir) dl fp fc
                            (AList.update gse_id (Failure (exn_str x)) results1, eb) rest) \<and>
           (gse_id \<notin> set rest \<longrightarrow> map_of results gse_id = Some (Failure (exn_str x))) \<and>
           (\<forall>i. i \<in> set rest \<longrightarrow>
                map_of results i =
                  map_of (rev (attempts C (Path output_base_dir) dl fp fc eb rest)) i) \<and>
           set (map fst results) = set gse_ids \<and>
           successful results + failed results = length results \<and>
           failed results = length (filter (\<lambda>r. \<not> is_success r) (map snd results)) \<and>
           (INFO, [Txt ''Successful: '', Num (successful results), Txt ''/'',
                   Num (length gse_ids)]) \<in> set (env_log e') \<and>
           (INFO, [Txt ''Failed: '', Num (failed results), Txt ''/'',
                   Num (length gse_ids)]) \<in> set (env_log e')"
proof -
  let ?loop = "batch_loop C (Path output_base_dir) dl fp fc ([], e1) gse_ids"
  let ?results = "fst ?loop"
  let ?tr = "attempts C (Path output_base_dir) dl fp fc eb rest"
  have step: "batch_step C (Path output_base_dir) dl fp fc (results1, ea) gse_id =
        (AList.update gse_id (Failure (exn_str x)) results1, eb)"
    using raises by (simp add: batch_step_def attempt_def handled)
  have goes_on: "?loop = batch_loop C (Path output_base_dir) dl fp fc
                   (AList.update gse_id (Failure (exn_str x)) results1, eb) rest"
    by (simp add: ids batch_loop_append before step)
  have run: "\<exists>e'. process_multiple_datasets C gse_ids output_base_dir dl fp fc e =
                    (Inr ?results, e') \<and>
              (INFO, [Txt ''Successful: '', Num (successful ?results), Txt ''/'',
                      Num (length gse_ids)]) \<in> set (env_log e') \<and>
              (INFO, [Txt ''Failed: '', Num (failed ?results), Txt ''/'',
                      Num (length gse_ids)]) \<in> set (env_log e')"
    using made
    by (cases ?loop) (simp add: process_multiple_datasets_def act_defs start)
  have rest_results: "?results = fold (\<lambda>ir. AList.update (fst ir) (snd ir)) ?tr
                          (AList.update gse_id (Failure (exn_str x)) results1)"
    by (simp add: goes_on loop_follows_attempts)
  have from_there: "?results = fst (batch_loop C (Path output_base_dir) dl fp fc
                       (AList.update gse_id (Failure (exn_str x)) results1, eb) rest)"
    by (simp add: goes_on)
  have kept: "map_of ?results gse_id = Some (Failure (exn_str x))" if "gse_id \<notin> set rest"
  proof -
    have "map_of (rev ?tr) gse_id = None"
      using that by (simp add: map_of_eq_None_iff attempts_ids image_image flip: set_map)
    then show ?thesis
      by (simp add: rest_results map_of_fold_update update_conv')
  qed
  have later: "map_of ?results i = map_of (rev ?tr) i" if "i \<in> set rest" for i
  proof -
    have "i \<in> fst ` set (rev ?tr)"
      using that by (simp add: attempts_keys)
    then have "map_of (rev ?tr) i \<noteq> None"
      by (simp only: map_of_eq_None_iff not_not)
    then show ?thesis
      by (auto simp add: rest_results map_of_fold_update split: option.splits)
  qed
  have "fst ` set ?results = fst ` set ([] :: (string \<times> batch_result) list) \<union> set gse_ids"
    by (simp only: loop_follows_attempts keys_fold_update fst_conv snd_conv attempts_keys)
  then have keys: "set (map fst ?results) = set gse_ids"
    by simp
  show ?thesis
    using run from_there kept later keys tally [of ?results] by blast
qed

subsection \<open>Running the batch on the concrete collaborators\<close>

lemma and_then_cases:
  "and_then m f e =
     (if isl (fst (m e)) then (Inl (projl (fst (m e))), snd (m e))
      else f (projr (fst (m e))) (snd (m e)))"
  by (cases "m e"; cases "fst (m e)") (auto simp add: and_then_def)

lemma demo_quiet:
  "make_dirs (demo_services u d) w p = (None, w) \<and>
   to_csv (demo_services u d) w df p = (None, w) \<and>
   json_dump (demo_services u d) w s p = (None, w) \<and>
   re_error (demo_services u d) pattern = None"
  by (simp add: demo_services_def)

lemma demo_init:
  "fst (init_processor (demo_services u d) p e) = Inr () \<and>
   world (snd (init_processor (demo_services u d) p e)) = world e"
  by (simp add: init_processor_def act_defs demo_services_def)

lemma demo_download_fails:
  assumes "gse_id \<in> set u" and "world e < d"
  shows "fst (download_geo_dataset (demo_services u d) p gse_id e) = Inl (Raised ''NetworkError'') \<and>
         world (snd (download_geo_dataset (demo_services u d) p gse_id e)) = Suc (world e)"
  using assms by (simp add: download_geo_dataset_def act_defs demo_services_def)

lemma demo_download_succeeds:
  assumes "gse_id \<notin> set u \<or> d \<le> world e"
  shows "fst (download_geo_dataset (demo_services u d) p gse_id e) = Inr (demo_gse gse_id) \<and>
         world (snd (download_geo_dataset (demo_services u d) p gse_id e)) = Suc (world e)"
  using assms
  by (auto simp add: download_geo_dataset_def act_defs demo_services_def meta_first_def
      demo_gse_def)

lemma demo_extract:
  "fst (extract_metadata (demo_services u d) (demo_gse gse_id) None (Some f) e) =
     Inr scenario_table \<and>
   world (snd (extract_metadata (demo_services u d) (demo_gse gse_id) None (Some f) e)) = world e"
  by (simp add: extract_metadata_def select_columns_def save_table_def act_defs
      demo_services_def demo_gse_def)

lemma demo_supplementary:
  "fst (download_supplementary_files (demo_services u d) (demo_gse gse_id) p e) = Inr [] \<and>
   world (snd (download_supplementary_files (demo_services u d) (demo_gse gse_id) p e)) = world e"
  by (simp add: download_supplementary_files_def act_defs demo_gse_def)

lemma demo_filter_world:
  "world (snd (filter_samples_by_criteria (demo_services u d) df col pattern cs e)) = world e"
  by (simp add: filter_samples_by_criteria_def str_contains_def act_defs demo_services_def
      Let_def)

lemma demo_filter_stage:
  "\<not> isl (fst (filter_stage (demo_services u d) df fp fc f e)) \<and>
   world (snd (filter_stage (demo_services u d) df fp fc f e)) = world e"
proof (cases "\<exists>pattern. fp = Some pattern \<and> pattern \<noteq> [] \<and> fc \<in> set (columns df)")
  case False
  then show ?thesis
    by (auto simp add: filter_stage_def act_defs split: option.splits)
next
  case True
  then obtain pattern where fp: "fp = Some pattern" "pattern \<noteq> []" "fc \<in> set (columns df)"
    by blast
  obtain r e' where run: "filter_samples_by_criteria (demo_services u d) df fc pattern False e = (r, e')"
    by (cases "filter_samples_by_criteria (demo_services u d) df fc pattern False e")
  have w: "world e' = world e"
    using demo_filter_world [of u d df fc pattern False e] by (simp add: run)
  show ?thesis
    using fp w
    by (cases r) (simp_all add: filter_stage_def run act_defs demo_quiet)
qed

lemma demo_summary:
  "\<not> isl (fst (generate_dataset_summary (demo_services u d) (demo_gse gse_id) df (Some f) e)) \<and>
   world (snd (generate_dataset_summary (demo_services u d) (demo_gse gse_id) df (Some f) e)) =
     world e"
  by (simp add: generate_dataset_summary_def act_defs meta_first_def demo_services_def
      demo_gse_def Let_def)

lemma demo_annotation:
  "\<not> isl (fst (create_sample_annotation (demo_services u d) df (Some f) e)) \<and>
   world (snd (create_sample_annotation (demo_services u d) df (Some f) e)) = world e"
  by (simp add: create_sample_annotation_def save_table_def act_defs demo_services_def Let_def)

lemma demo_process_fails:
  assumes "gse_id \<in> set u" and "world e < d"
  shows "fst (process_dataset (demo_services u d) base dl fp fc gse_id e) =
           Inl (Raised ''NetworkError'') \<and>
         world (snd (process_dataset (demo_services u d) base dl fp fc gse_id e)) = Suc (world e)"
proof -
  have "world (snd (init_processor (demo_services u d) (Join base gse_id) e)) < d"
    using assms(2) by (simp add: demo_init)
  from demo_download_fails [OF assms(1) this]
  show ?thesis
    by (simp add: process_dataset_def Let_def and_then_cases demo_init)
qed

lemma demo_process_succeeds:
  assumes "gse_id \<notin> set u \<or> d \<le> world e"
  shows "\<not> isl (fst (process_dataset (demo_services u d) base dl fp fc gse_id e)) \<and>
         is_success (projr (fst (process_dataset (demo_services u d) base dl fp fc gse_id e))) \<and>
         world (snd (process_dataset (demo_services u d) base dl fp fc gse_id e)) = Suc (world e)"
proof -
  have "gse_id \<notin> set u \<or>
        d \<le> world (snd (init_processor (demo_services u d) (Join base gse_id) e))"
    using assms by (simp add: demo_init)
  from demo_download_succeeds [OF this]
  show ?thesis
    by (simp add: process_dataset_def Let_def and_then_cases demo_init demo_extract
        demo_supplementary demo_filter_stage demo_summary demo_annotation succeed_def)
qed

lemma demo_attempt_fails:
  assumes "gse_id \<in> set u" and "world e < d"
  shows "fst (attempt (demo_services u d) base dl fp fc e gse_id) = Failure [Txt ''NetworkError''] \<and>
         world (snd (attempt (demo_services u d) base dl fp fc e gse_id)) = Suc (world e)"
proof -
  have "world (announce gse_id e) < d"
    using assms(2) by (simp add: announce_def)
  from demo_process_fails [OF assms(1) this, of base dl fp fc]
  show ?thesis
    by (cases "process_dataset (demo_services u d) base dl fp fc gse_id (announce gse_id e)")
       (simp add: attempt_def announce_def)
qed

lemma demo_attempt_succeeds:
  assumes "gse_id \<notin> set u \<or> d \<le> world e"
  shows "is_success (fst (attempt (demo_services u d) base dl fp fc e gse_id)) \<and>
         world (snd (attempt (demo_services u d) base dl fp fc e gse_id)) = Suc (world e)"
proof -
  have "gse_id \<notin> set u \<or> d \<le> world (announce gse_id e)"
    using assms by (simp add: announce_def)
  from demo_process_succeeds [OF this, of base dl fp fc]
  show ?thesis
    by (cases "process_dataset (demo_services u d) base dl fp fc gse_id (announce gse_id e)";
        cases "fst (process_dataset (demo_services u d) base dl fp fc gse_id (announce gse_id e))")
       (simp_all add: attempt_def announce_def)
qed

lemma demo_A_then_B:
  assumes "world e1 = 0"
  shows "\<exists>ra ea e2.
           batch_loop (demo_services [''B''] 10) base dl fp fc ([], e1) [''A''] =
             ([(''A'', ra)], ea) \<and>
           is_success ra \<and>
           process_dataset (demo_services [''B''] 10) base dl fp fc ''B'' (announce ''B'' ea) =
             (Inl (Raised ''NetworkError''), e2) \<and>
           world e2 = 2"
proof -
  let ?D = "demo_services [''B''] 10"
  let ?a = "attempt ?D base dl fp fc e1 ''A''"
  let ?p = "process_dataset ?D base dl fp fc ''B'' (announce ''B'' (snd ?a))"
  have a: "is_success (fst ?a) \<and> world (snd ?a) = Suc (world e1)"
    by (rule demo_attempt_succeeds) simp
  have before: "batch_loop ?D base dl fp fc ([], e1) [''A''] = ([(''A'', fst ?a)], snd ?a)"
    by (cases ?a) (simp add: batch_step_def)
  have "world (announce ''B'' (snd ?a)) < 10"
    using a assms by (simp add: announce_def)
  then have "fst ?p = Inl (Raised ''NetworkError'') \<and>
             world (snd ?p) = Suc (world (announce ''B'' (snd ?a)))"
    using demo_process_fails [of "''B''" "[''B'']" "announce ''B'' (snd ?a)" 10 base dl fp fc]
    by simp
  then have "?p = (Inl (Raised ''NetworkError''), snd ?p) \<and> world (snd ?p) = 2"
    using a assms by (cases ?p) (simp add: announce_def)
  with before a show ?thesis
    by blast
qed

text \<open>
  The specification's batch scenario, \<open>A\<close> then \<open>B\<close> with a network error on
  fetching \<open>B\<close>: the batch returns a success entry for \<open>A\<close> and a failure entry
  for \<open>B\<close>, and both logged counts are one. With a third id \<open>C\<close> after the
  failing one, the batch goes on to it: \<open>C\<close> has a success entry, and the counts are
  two and one.
\<close>

theorem failure_is_recorded_and_the_batch_goes_on_witness:
  "make_dirs (demo_services [''B''] 10) 0 (Path ''out'') = (None, 0) \<and>
   (\<exists>results e'.
      process_multiple_datasets (demo_services [''B''] 10) [''A'', ''B''] ''out'' True
        (Some ''h3k'') ''title'' \<lparr>env_log = [], world = 0\<rparr> = (Inr results, e') \<and>
      map (\<lambda>ir. (fst ir, is_success (snd ir))) results = [(''A'', True), (''B'', False)] \<and>
      map_of results ''B'' = Some (Failure [Txt ''NetworkError'']) \<and>
      successful results = 1 \<and> failed results = 1 \<and>
      (INFO, [Txt ''Successful: '', Num 1, Txt ''/'', Num 2]) \<in> set (env_log e') \<and>
      (INFO, [Txt ''Failed: '', Num 1, Txt ''/'', Num 2]) \<in> set (env_log e')) \<and>
   (\<exists>results e'.
      process_multiple_datasets (demo_services [''B''] 10) [''A'', ''B'', ''C''] ''out'' True
        (Some ''h3k'') ''title'' \<lparr>env_log = [], world = 0\<rparr> = (Inr results, e') \<and>
      map (\<lambda>ir. (fst ir, is_success (snd ir))) results =
        [(''A'', True), (''B'', False), (''C'', True)] \<and>
      map_of results ''B'' = Some (Failure [Txt ''NetworkError'']) \<and>
      successful results = 2 \<and> failed results = 1 \<and>
      (INFO, [Txt ''Successful: '', Num 2, Txt ''/'', Num 3]) \<in> set (env_log e') \<and>
      (INFO, [Txt ''Failed: '', Num 1, Txt ''/'', Num 3]) \<in> set (env_log e'))"
proof -
  let ?D = "demo_services [''B''] 10"
  let ?e = "\<lparr>env_log = [], world = 0 :: nat\<rparr>"
  have made0: "make_dirs ?D 0 (Path ''out'') = (None, 0)"
    by (simp add: demo_services_def)
  then have made: "make_dirs ?D (world ?e) (Path ''out'') = (None, 0)"
    by simp
  have two: "\<exists>results e'.
      process_multiple_datasets ?D [''A'', ''B''] ''out'' True (Some ''h3k'') ''title'' ?e =
        (Inr results, e') \<and>
      map (\<lambda>ir. (fst ir, is_success (snd ir))) results = [(''A'', True), (''B'', False)] \<and>
      map_of results ''B'' = Some (Failure [Txt ''NetworkError'']) \<and>
      successful results = 1 \<and> failed results = 1 \<and>
      (INFO, [Txt ''Successful: '', Num 1, Txt ''/'', Num 2]) \<in> set (env_log e') \<and>
      (INFO, [Txt ''Failed: '', Num 1, Txt ''/'', Num 2]) \<in> set (env_log e')"
  proof -
    let ?e1 = "\<lparr>env_log = [(INFO, [Txt ''Processing '', Num 2, Txt '' datasets in batch...''])],
                world = 0 :: nat\<rparr>"
    have start: "?e1 = ?e\<lparr>env_log := env_log ?e @
                     [(INFO, [Txt ''Processing '', Num (length [''A'', ''B'']),
                              Txt '' datasets in batch...''])],
                   world := 0\<rparr>"
      by simp
    have ids: "[''A'', ''B''] = [''A''] @ ''B'' # []"
      by simp
    have "world ?e1 = 0"
      by simp
    from demo_A_then_B [OF this, of "Path ''out''" True "Some ''h3k''" "''title''"]
    obtain ra ea e2 where
      before: "batch_loop ?D (Path ''out'') True (Some ''h3k'') ''title'' ([], ?e1) [''A''] =
                 ([(''A'', ra)], ea)"
      and ra: "is_success ra"
      and raises: "process_dataset ?D (Path ''out'') True (Some ''h3k'') ''title'' ''B''
                     (announce ''B'' ea) = (Inl (Raised ''NetworkError''), e2)"
      by blast
    from failure_is_recorded_and_the_batch_goes_on [OF made start ids before raises refl]
    obtain results e' where
      run: "process_multiple_datasets ?D [''A'', ''B''] ''out'' True (Some ''h3k'') ''title'' ?e =
              (Inr results, e')"
      and results: "results = fst (batch_loop ?D (Path ''out'') True (Some ''h3k'') ''title''
                      (AList.update ''B'' (Failure (exn_str (Raised ''NetworkError'')))
                         [(''A'', ra)],
                       e2\<lparr>env_log := env_log e2 @
                         [(ERROR, [Txt ''Error processing '', Txt ''B'', Txt '': ''] @
                                  exn_str (Raised ''NetworkError''))]\<rparr>) [])"
      and s: "(INFO, [Txt ''Successful: '', Num (successful results), Txt ''/'',
                      Num (length [''A'', ''B''])]) \<in> set (env_log e')"
      and f: "(INFO, [Txt ''Failed: '', Num (failed results), Txt ''/'',
                      Num (length [''A'', ''B''])]) \<in> set (env_log e')"
      by blast
    have shape: "results = [(''A'', ra), (''B'', Failure [Txt ''NetworkError''])]"
      by (simp add: results)
    have flags: "map (\<lambda>ir. (fst ir, is_success (snd ir))) results =
                   [(''A'', True), (''B'', False)]"
      using ra by (simp add: shape)
    have entry: "map_of results ''B'' = Some (Failure [Txt ''NetworkError''])"
      by (simp add: shape)
    have counts: "successful results = 1" "failed results = 1"
      using ra by (simp_all add: shape successful_def failed_def)
    have len: "length [''A'', ''B''] = (2 :: nat)"
      by simp
    have s': "(INFO, [Txt ''Successful: '', Num 1, Txt ''/'', Num 2]) \<in> set (env_log e')"
      using s unfolding counts len .
    have f': "(INFO, [Txt ''Failed: '', Num 1, Txt ''/'', Num 2]) \<in> set (env_log e')"
      using f unfolding counts len .
    from run flags entry counts s' f' show ?thesis
      by (intro exI conjI) assumption+
  qed
  have three: "\<exists>results e'.
      process_multiple_datasets ?D [''A'', ''B'', ''C''] ''out'' True (Some ''h3k'') ''title'' ?e =
        (Inr results, e') \<and>
      map (\<lambda>ir. (fst ir, is_success (snd ir))) results =
        [(''A'', True), (''B'', False), (''C'', True)] \<and>
      map_of results ''B'' = Some (Failure [Txt ''NetworkError'']) \<and>
      successful results = 2 \<and> failed results = 1 \<and>
      (INFO, [Txt ''Successful: '', Num 2, Txt ''/'', Num 3]) \<in> set (env_log e') \<and>
      (INFO, [Txt ''Failed: '', Num 1, Txt ''/'', Num 3]) \<in> set (env_log e')"
  proof -
    let ?e1 = "\<lparr>env_log = [(INFO, [Txt ''Processing '', Num 3, Txt '' datasets in batch...''])],
                world = 0 :: nat\<rparr>"
    have start: "?e1 = ?e\<lparr>env_log := env_log ?e @
                     [(INFO, [Txt ''Processing '', Num (length [''A'', ''B'', ''C'']),
                              Txt '' datasets in batch...''])],
                   world := 0\<rparr>"
      by simp
    have ids: "[''A'', ''B'', ''C''] = [''A''] @ ''B'' # [''C'']"
      by simp
    have "world ?e1 = 0"
      by simp
    from demo_A_then_B [OF this, of "Path ''out''" True "Some ''h3k''" "''title''"]
    obtain ra ea e2 where
      before: "batch_loop ?D (Path ''out'') True (Some ''h3k'') ''title'' ([], ?e1) [''A''] =
                 ([(''A'', ra)], ea)"
      and ra: "is_success ra"
      and raises: "process_dataset ?D (Path ''out'') True (Some ''h3k'') ''title'' ''B''
                     (announce ''B'' ea) = (Inl (Raised ''NetworkError''), e2)"
      by blast
    let ?eb = "e2\<lparr>env_log := env_log e2 @
                 [(ERROR, [Txt ''Error processing '', Txt ''B'', Txt '': ''] @
                          exn_str (Raised ''NetworkError''))]\<rparr>"
    let ?c = "attempt ?D (Path ''out'') True (Some ''h3k'') ''title'' ?eb ''C''"
    have "''C'' \<notin> set [''B''] \<or> 10 \<le> world ?eb"
      by simp
    from demo_attempt_succeeds [OF this, of "Path ''out''" True "Some ''h3k''" "''title''"]
    have c: "is_success (fst ?c)"
      by simp
    from failure_is_recorded_and_the_batch_goes_on [OF made start ids before raises refl]
    obtain results e' where
      run: "process_multiple_datasets ?D [''A'', ''B'', ''C''] ''out'' True (Some ''h3k'')
              ''title'' ?e = (Inr results, e')"
      and results: "results = fst (batch_loop ?D (Path ''out'') True (Some ''h3k'') ''title''
                      (AList.update ''B'' (Failure (exn_str (Raised ''NetworkError'')))
                         [(''A'', ra)], ?eb) [''C''])"
      and kept: "''B'' \<notin> set [''C''] \<longrightarrow>
                 map_of results ''B'' = Some (Failure (exn_str (Raised ''NetworkError'')))"
      and s: "(INFO, [Txt ''Successful: '', Num (successful results), Txt ''/'',
                      Num (length [''A'', ''B'', ''C''])]) \<in> set (env_log e')"
      and f: "(INFO, [Txt ''Failed: '', Num (failed results), Txt ''/'',
                      Num (length [''A'', ''B'', ''C''])]) \<in> set (env_log e')"
      by blast
    have shape: "results = [(''A'', ra), (''B'', Failure [Txt ''NetworkError'']), (''C'', fst ?c)]"
      by (cases ?c) (simp add: results batch_step_def)
    have flags: "map (\<lambda>ir. (fst ir, is_success (snd ir))) results =
                   [(''A'', True), (''B'', False), (''C'', True)]"
      using ra c by (simp add: shape)
    have entry: "map_of results ''B'' = Some (Failure [Txt ''NetworkError''])"
      using kept by simp
    have counts: "successful results = 2" "failed results = 1"
      using ra c by (simp_all add: shape successful_def failed_def)
    have len: "length [''A'', ''B'', ''C''] = (3 :: nat)"
      by simp
    have s': "(INFO, [Txt ''Successful: '', Num 2, Txt ''/'', Num 3]) \<in> set (env_log e')"
      using s unfolding counts len .
    have f': "(INFO, [Txt ''Failed: '', Num 1, Txt ''/'', Num 3]) \<in> set (env_log e')"
      using f unfolding counts len .
    from run flags entry counts s' f' show ?thesis
      by (intro exI conjI) assumption+
  qed
  from made0 two three show ?thesis
    by (intro conjI) assumption+
qed

text \<open>
  Claim C10. Once the base directory is made, the batch returns a result mapping. Every
  requested id is processed in its turn, repeated ids again; the mapping has one entry
  for each distinct id, the one of the id's last turn; so the success count and the
  failure count that the code logs add up to the number of distinct ids, which is smaller
  than the number of requested ids as soon as an id is repeated.
\<close>

theorem repeated_ids_share_one_entry:
  assumes made: "make_dirs C (world e) (Path output_base_dir) = (None, w)"
    and start: "e1 = e\<lparr>env_log := env_log e @
                   [(INFO, [Txt ''Processing '', Num (length gse_ids),
                            Txt '' datasets in batch...''])],
                 world := w\<rparr>"
    and trace: "tr = attempts C (Path output_base_dir) dl fp fc e1 gse_ids"
  shows "\<exists>results e'.
           process_multiple_datasets C gse_ids output_base_dir dl fp fc e = (Inr results, e') \<and>
           map fst tr = gse_ids \<and>
           (\<forall>i. map_of results i = map_of (rev tr) i) \<and>
           distinct (map fst results) \<and> set (map fst results) = set gse_ids \<and>
           successful results + failed results = card (set gse_ids) \<and>
           card (set gse_ids) \<le> length gse_ids \<and>
           (\<not> distinct gse_ids \<longrightarrow> card (set gse_ids) < length gse_ids) \<and>
           (INFO, [Txt ''Successful: '', Num (successful results), Txt ''/'',
                   Num (length gse_ids)]) \<in> set (env_log e') \<and>
           (INFO, [Txt ''Failed: '', Num (failed results), Txt ''/'',
                   Num (length gse_ids)]) \<in> set (env_log e')"
proof -
  let ?loop = "batch_loop C (Path output_base_dir) dl fp fc ([], e1) gse_ids"
  let ?results = "fst ?loop"
  have results: "?results = fold (\<lambda>ir. AList.update (fst ir) (snd ir)) tr []"
    by (simp add: loop_follows_attempts trace)
  have run: "\<exists>e'. process_multiple_datasets C gse_ids output_base_dir dl fp fc e =
                    (Inr ?results, e') \<and>
              (INFO, [Txt ''Successful: '', Num (successful ?results), Txt ''/'',
                      Num (length gse_ids)]) \<in> set (env_log e') \<and>
              (INFO, [Txt ''Failed: '', Num (failed ?results), Txt ''/'',
                      Num (length gse_ids)]) \<in> set (env_log e')"
    using made
    by (cases ?loop) (simp add: process_multiple_datasets_def act_defs start)
  have ids: "map fst tr = gse_ids"
    by (simp add: trace attempts_ids)
  have last_wins: "map_of ?results i = map_of (rev tr) i" for i
    by (simp add: results map_of_fold_update split: option.splits)
  have dist: "distinct (map fst ?results)"
    by (simp add: results distinct_fold_update)
  have keys: "set (map fst ?results) = set gse_ids"
    by (simp only: set_map results keys_fold_update trace attempts_keys) simp
  have "length ?results = card (set gse_ids)"
    using dist keys by (metis distinct_card length_map)
  then have count: "successful ?results + failed ?results = card (set gse_ids)"
    using tally [of ?results] by simp
  have le: "card (set gse_ids) \<le> length gse_ids"
    by (rule card_length)
  have less: "card (set gse_ids) < length gse_ids" if "\<not> distinct gse_ids"
    using that le card_distinct [of gse_ids] by fastforce
  show ?thesis
    using run ids last_wins dist keys count le less by blast
qed

text \<open>
  The id \<open>B\<close> requested twice, the network failing on the first call only: two
  turns, a failure then a success, and one entry, the success.
\<close>

theorem repeated_ids_share_one_entry_witness:
  "make_dirs (demo_services [''B''] 1) 0 (Path ''out'') = (None, 0) \<and>
   map (\<lambda>ir. (fst ir, is_success (snd ir)))
     (attempts (demo_services [''B''] 1) (Path ''out'') False None ''title''
        \<lparr>env_log = [(INFO, [Txt ''Processing '', Num 2, Txt '' datasets in batch...''])],
         world = 0\<rparr> [''B'', ''B'']) =
   [(''B'', False), (''B'', True)] \<and>
   (\<exists>results e'.
      process_multiple_datasets (demo_services [''B''] 1) [''B'', ''B''] ''out'' False None
        ''title'' \<lparr>env_log = [], world = 0\<rparr> = (Inr results, e') \<and>
      map (\<lambda>ir. (fst ir, is_success (snd ir))) results = [(''B'', True)] \<and>
      successful results + failed results = 1 \<and>
      (INFO, [Txt ''Successful: '', Num 1, Txt ''/'', Num 2]) \<in> set (env_log e') \<and>
      (INFO, [Txt ''Failed: '', Num 0, Txt ''/'', Num 2]) \<in> set (env_log e'))"
proof -
  let ?D = "demo_services [''B''] 1"
  let ?e = "\<lparr>env_log = [], world = 0 :: nat\<rparr>"
  let ?e1 = "\<lparr>env_log = [(INFO, [Txt ''Processing '', Num 2, Txt '' datasets in batch...''])],
              world = 0 :: nat\<rparr>"
  let ?a1 = "attempt ?D (Path ''out'') False None ''title'' ?e1 ''B''"
  let ?a2 = "attempt ?D (Path ''out'') False None ''title'' (snd ?a1) ''B''"
  let ?tr = "attempts ?D (Path ''out'') False None ''title'' ?e1 [''B'', ''B'']"
  have made0: "make_dirs ?D 0 (Path ''out'') = (None, 0)"
    by (simp add: demo_services_def)
  then have made: "make_dirs ?D (world ?e) (Path ''out'') = (None, 0)"
    by simp
  have start: "?e1 = ?e\<lparr>env_log := env_log ?e @
                   [(INFO, [Txt ''Processing '', Num (length [''B'', ''B'']),
                            Txt '' datasets in batch...''])],
                 world := 0\<rparr>"
    by simp
  have a1: "fst ?a1 = Failure [Txt ''NetworkError''] \<and> world (snd ?a1) = Suc (world ?e1)"
    by (rule demo_attempt_fails) simp_all
  then have "''B'' \<notin> set [''B''] \<or> 1 \<le> world (snd ?a1)"
    by simp
  from demo_attempt_succeeds [OF this, of "Path ''out''" False None "''title''"]
  have a2: "is_success (fst ?a2)"
    by simp
  have tr: "?tr = [(''B'', fst ?a1), (''B'', fst ?a2)]"
    by simp
  from repeated_ids_share_one_entry [OF made start refl, where dl = False and fp = None
         and fc = "''title''"]
  obtain results e' where
    run: "process_multiple_datasets ?D [''B'', ''B''] ''out'' False None ''title'' ?e =
            (Inr results, e')"
    and last_wins: "\<forall>i. map_of results i = map_of (rev ?tr) i"
    and dist: "distinct (map fst results)"
    and keys: "set (map fst results) = set [''B'', ''B'']"
    and count: "successful results + failed results = card (set [''B'', ''B''])"
    and s: "(INFO, [Txt ''Successful: '', Num (successful results), Txt ''/'',
                    Num (length [''B'', ''B''])]) \<in> set (env_log e')"
    and f: "(INFO, [Txt ''Failed: '', Num (failed results), Txt ''/'',
                    Num (length [''B'', ''B''])]) \<in> set (env_log e')"
    by blast
  have "length results = 1"
    using count tally [of results] by simp
  then obtain k r where one: "results = [(k, r)]"
    by (cases results) (auto simp add: length_Suc_conv)
  have k: "k = ''B''"
    using keys by (simp add: one)
  have "map_of results ''B'' = Some (fst ?a2)"
    using last_wins by (simp add: tr)
  then have r: "r = fst ?a2"
    by (simp add: one k)
  have shape: "map (\<lambda>ir. (fst ir, is_success (snd ir))) results = [(''B'', True)]"
    using a2 by (simp add: one k r)
  have counts: "successful results = 1" "failed results = 0"
    using a2 by (simp_all add: one successful_def failed_def k r)
  have len: "length [''B'', ''B''] = (2 :: nat)"
    by simp
  have s': "(INFO, [Txt ''Successful: '', Num 1, Txt ''/'', Num 2]) \<in> set (env_log e')"
    using s unfolding counts len .
  have f': "(INFO, [Txt ''Failed: '', Num 0, Txt ''/'', Num 2]) \<in> set (env_log e')"
    using f unfolding counts len .
  have sum1: "successful results + failed results = 1"
    unfolding counts by simp
  have flags: "map (\<lambda>ir. (fst ir, is_success (snd ir))) ?tr = [(''B'', False), (''B'', True)]"
    using a1 a2 by (simp add: tr)
  from run shape sum1 s' f'
  have "\<exists>results e'.
      process_multiple_datasets ?D [''B'', ''B''] ''out'' False None ''title'' ?e =
        (Inr results, e') \<and>
      map (\<lambda>ir. (fst ir, is_success (snd ir))) results = [(''B'', True)] \<and>
      successful results + failed results = 1 \<and>
      (INFO, [Txt ''Successful: '', Num 1, Txt ''/'', Num 2]) \<in> set (env_log e') \<and>
      (INFO, [Txt ''Failed: '', Num 0, Txt ''/'', Num 2]) \<in> set (env_log e')"
    by (intro exI conjI) assumption+
  with made0 flags show ?thesis
    by (intro conjI) assumption+
qed

end
